theory Spec2Isabelle
  imports Complex_Main "HOL-Library.Product_Lexorder"
begin

section \<open>Python errors\<close>

text \<open>
  Every exception the modelled code can raise is a value of this type; a function that
  can raise returns \<open>error + 'a\<close> with \<open>Inl\<close> for the exception.
\<close>

datatype error =
    ZeroDivisionError
  | ValueError
  | TypeError
  | AttributeError
  | IndexError
  | UnboundLocalError
  | LinAlgError

section \<open>Two-dimensional numpy arrays\<close>

text \<open>
  A numpy array of two dimensions is its shape and its rows. numpy's float64 arithmetic
  is modelled by exact arithmetic on \<open>real\<close>: there is no rounding, no \<open>Inf\<close> and no
  \<open>NaN\<close>. Where numpy divides a float array by zero (a warning, not an exception) the
  model's entry is HOL's \<open>x / 0 = 0\<close>; theorems that depend on such an entry exclude
  the zero divisor by a hypothesis.
\<close>

record ndarray =
  shape0 :: nat
  shape1 :: nat
  dat :: "real list list"

definition mk :: "nat \<Rightarrow> nat \<Rightarrow> (nat \<Rightarrow> nat \<Rightarrow> real) \<Rightarrow> ndarray" where
  "mk r c f = \<lparr>shape0 = r, shape1 = c, dat = map (\<lambda>i. map (f i) [0..<c]) [0..<r]\<rparr>"

definition el :: "ndarray \<Rightarrow> nat \<Rightarrow> nat \<Rightarrow> real" where
  "el A i j = dat A ! i ! j"

definition zeros :: "nat \<Rightarrow> nat \<Rightarrow> ndarray" where
  "zeros r c = mk r c (\<lambda>i j. 0)"

definition ones :: "nat \<Rightarrow> nat \<Rightarrow> ndarray" where
  "ones r c = mk r c (\<lambda>i j. 1)"

definition eye :: "nat \<Rightarrow> ndarray" where
  "eye k = mk k k (\<lambda>i j. if i = j then 1 else 0)"

definition scalar :: "real \<Rightarrow> ndarray" where
  \<comment> \<open>a Python number as an operand of an array operation: it broadcasts as a 1 x 1 array\<close>
  "scalar x = mk 1 1 (\<lambda>i j. x)"

definition transposed :: "ndarray \<Rightarrow> ndarray" where
  \<comment> \<open>\<^verbatim>\<open>A.T\<close>\<close>
  "transposed A = mk (shape1 A) (shape0 A) (\<lambda>i j. el A j i)"

definition bdim :: "nat \<Rightarrow> nat \<Rightarrow> nat" where
  "bdim p q = (if p = 1 then q else p)"

definition bc_ok :: "ndarray \<Rightarrow> ndarray \<Rightarrow> bool" where
  \<comment> \<open>numpy's broadcasting rule: each dimension agrees, or one of the two is 1\<close>
  "bc_ok A B \<longleftrightarrow>
     (shape0 A = shape0 B \<or> shape0 A = 1 \<or> shape0 B = 1) \<and>
     (shape1 A = shape1 B \<or> shape1 A = 1 \<or> shape1 B = 1)"

definition bget :: "ndarray \<Rightarrow> nat \<Rightarrow> nat \<Rightarrow> real" where
  "bget A i j = el A (if shape0 A = 1 then 0 else i) (if shape1 A = 1 then 0 else j)"

definition bc :: "(real \<Rightarrow> real \<Rightarrow> real) \<Rightarrow> ndarray \<Rightarrow> ndarray \<Rightarrow> ndarray" where
  \<comment> \<open>an elementwise binary operator on operands whose shapes broadcast\<close>
  "bc f A B =
     mk (bdim (shape0 A) (shape0 B)) (bdim (shape1 A) (shape1 B))
        (\<lambda>i j. f (bget A i j) (bget B i j))"

definition dot :: "ndarray \<Rightarrow> ndarray \<Rightarrow> ndarray" where
  \<comment> \<open>\<^verbatim>\<open>np.dot(A, B)\<close> on operands whose inner dimensions agree\<close>
  "dot A B =
     mk (shape0 A) (shape1 B) (\<lambda>i j. \<Sum>k\<leftarrow>[0..<shape1 A]. el A i k * el B k j)"

definition multi_dot :: "ndarray \<Rightarrow> ndarray \<Rightarrow> ndarray \<Rightarrow> ndarray" where
  \<comment> \<open>\<^verbatim>\<open>np.linalg.multi_dot([A, B, C])\<close>\<close>
  "multi_dot A B C = dot (dot A B) C"

definition hstack :: "ndarray \<Rightarrow> ndarray \<Rightarrow> error + ndarray" where
  \<comment> \<open>\<^verbatim>\<open>np.hstack((A, B))\<close>: the row counts must agree\<close>
  "hstack A B =
     (if shape0 A = shape0 B
      then Inr (mk (shape0 A) (shape1 A + shape1 B)
                  (\<lambda>i j. if j < shape1 A then el A i j else el B i (j - shape1 A)))
      else Inl ValueError)"

definition vstack :: "ndarray \<Rightarrow> ndarray \<Rightarrow> ndarray" where
  \<comment> \<open>\<^verbatim>\<open>np.vstack((A, B))\<close> on operands with the same number of columns\<close>
  "vstack A B =
     mk (shape0 A + shape0 B) (shape1 A)
        (\<lambda>i j. if i < shape0 A then el A i j else el B (i - shape0 A) j)"

definition norm_axis0 :: "ndarray \<Rightarrow> ndarray" where
  \<comment> \<open>\<^verbatim>\<open>np.linalg.norm(A, axis=0)\<close>: the Euclidean norm of every column; its
      shape \<open>(n,)\<close> broadcasts as one row\<close>
  "norm_axis0 A = mk 1 (shape1 A) (\<lambda>i j. sqrt (\<Sum>k\<leftarrow>[0..<shape0 A]. (el A k j)\<^sup>2))"

definition norm_fro :: "ndarray \<Rightarrow> real" where
  \<comment> \<open>\<^verbatim>\<open>np.linalg.norm(A, 'fro')\<close>\<close>
  "norm_fro A = sqrt (\<Sum>i\<leftarrow>[0..<shape0 A]. \<Sum>j\<leftarrow>[0..<shape1 A]. (el A i j)\<^sup>2)"

definition cols_to :: "ndarray \<Rightarrow> nat \<Rightarrow> ndarray" where
  \<comment> \<open>\<^verbatim>\<open>Z[:, :k]\<close>\<close>
  "cols_to Z k = mk (shape0 Z) (min k (shape1 Z)) (\<lambda>i j. el Z i j)"

definition cols_from :: "ndarray \<Rightarrow> nat \<Rightarrow> ndarray" where
  \<comment> \<open>\<^verbatim>\<open>Z[:, k:]\<close>\<close>
  "cols_from Z k = mk (shape0 Z) (shape1 Z - k) (\<lambda>i j. el Z i (j + k))"

definition take_cols :: "ndarray \<Rightarrow> nat list \<Rightarrow> error + ndarray" where
  \<comment> \<open>\<^verbatim>\<open>V[:, idx]\<close> with an index array: a column index out of range raises\<close>
  "take_cols V idx =
     (if list_all (\<lambda>i. i < shape1 V) idx
      then Inr (mk (shape0 V) (length idx) (\<lambda>i j. el V i (idx ! j)))
      else Inl IndexError)"

definition slice_to :: "'a list \<Rightarrow> int \<Rightarrow> 'a list" where
  \<comment> \<open>Python's \<^verbatim>\<open>xs[:d]\<close>: a negative bound counts from the end, and no bound raises\<close>
  "slice_to xs d = (if 0 \<le> d then take (nat d) xs else take (length xs - nat (- d)) xs)"

definition assign_rows :: "ndarray \<Rightarrow> nat list \<Rightarrow> real \<Rightarrow> error + ndarray" where
  \<comment> \<open>\<^verbatim>\<open>e[idx] = v\<close> for an index array into the rows of a column vector\<close>
  "assign_rows A idx v =
     (if list_all (\<lambda>i. i < shape0 A) idx
      then Inr (mk (shape0 A) (shape1 A) (\<lambda>i j. if i \<in> set idx then v else el A i j))
      else Inl IndexError)"

definition truth_value :: "ndarray \<Rightarrow> error + bool" where
  \<comment> \<open>\<^verbatim>\<open>if X2:\<close> on an array: ambiguous when it has more than one element\<close>
  "truth_value A =
     (if 1 < shape0 A * shape1 A then Inl ValueError
      else if shape0 A * shape1 A = 1 then Inr (el A 0 0 \<noteq> 0)
      else Inr False)"

section \<open>Library functions the notebooks call\<close>

definition linear_kernel :: "ndarray \<Rightarrow> ndarray option \<Rightarrow> ndarray" where
  \<comment> \<open>\<^verbatim>\<open>sklearn.metrics.pairwise.linear_kernel(A, B)\<close>: the Gram matrix of the rows\<close>
  "linear_kernel A B = dot A (transposed (case B of None \<Rightarrow> A | Some B' \<Rightarrow> B'))"

definition rbf_kernel :: "ndarray \<Rightarrow> ndarray option \<Rightarrow> real \<Rightarrow> ndarray" where
  \<comment> \<open>\<^verbatim>\<open>sklearn.metrics.pairwise.rbf_kernel(A, B, gamma)\<close>\<close>
  "rbf_kernel A B g =
     (let B' = (case B of None \<Rightarrow> A | Some B' \<Rightarrow> B')
      in mk (shape0 A) (shape0 B')
           (\<lambda>i j. exp (- g * (\<Sum>k\<leftarrow>[0..<shape1 A]. (el A i k - el B' j k)\<^sup>2))))"

definition argsort :: "complex list \<Rightarrow> nat list" where
  \<comment> \<open>\<^verbatim>\<open>np.argsort(w)\<close>: complex numbers are ordered by real part, then imaginary part\<close>
  "argsort w = sort_key (\<lambda>i. (Re (w ! i), Im (w ! i))) [0..<length w]"

definition accuracy_score :: "int list option \<Rightarrow> int list \<Rightarrow> error + real" where
  \<comment> \<open>\<^verbatim>\<open>sklearn.metrics.accuracy_score(y_true, y_pred)\<close>: \<^verbatim>\<open>None\<close> is not array-like,
      and the two label vectors must have the same length\<close>
  "accuracy_score y_true y_pred =
     (case y_true of
        None \<Rightarrow> Inl TypeError
      | Some yt \<Rightarrow>
          if length yt \<noteq> length y_pred then Inl ValueError
          else Inr (real (length (filter (\<lambda>(a, b). a = b) (zip yt y_pred)))
                    / real (length yt)))"

type_synonym eig_solver = "ndarray \<Rightarrow> ndarray \<Rightarrow> error + (complex list \<times> ndarray)"

type_synonym classifier = "ndarray \<Rightarrow> int list \<Rightarrow> ndarray \<Rightarrow> error + int list"

section \<open>The kernel evaluator\<close>

text \<open>
  The function \<^verbatim>\<open>kernel(ker, X1, X2, gamma)\<close> of the JDA notebook. \<open>ker\<close> is a Python
  string or \<^verbatim>\<open>None\<close>; \<^verbatim>\<open>not ker\<close> holds for \<^verbatim>\<open>None\<close> and for the empty string. The
  local \<^verbatim>\<open>K\<close> starts as \<^verbatim>\<open>None\<close> and is returned as it is when no branch assigns it.
\<close>

definition kernel :: "string option \<Rightarrow> ndarray \<Rightarrow> ndarray option \<Rightarrow> real \<Rightarrow> error + ndarray option" where
  "kernel ker X1 X2 g =
     (if ker = None \<or> ker = Some [] \<or> ker = Some ''primal'' then Inr (Some X1)
      else if ker = Some ''linear'' then
        (case X2 of
           None \<Rightarrow> Inr (Some (linear_kernel (transposed X1) None))
         | Some B \<Rightarrow>
            (case truth_value B of
               Inl err \<Rightarrow> Inl err
             | Inr tv \<Rightarrow>
                 if tv then Inr (Some (linear_kernel (transposed X1) (Some (transposed B))))
                 else Inr (Some (linear_kernel (transposed X1) None))))
      else if ker = Some ''rbf'' then
        (case X2 of
           None \<Rightarrow> Inr (Some (rbf_kernel (transposed X1) None g))
         | Some B \<Rightarrow>
            (case truth_value B of
               Inl err \<Rightarrow> Inl err
             | Inr tv \<Rightarrow>
                 if tv then Inr (Some (rbf_kernel (transposed X1) (Some (transposed B)) g))
                 else Inr (Some (rbf_kernel (transposed X1) None g))))
      else Inr None)"

text \<open>
  The TCA notebook defines its own \<^verbatim>\<open>kernel\<close>; it tests \<^verbatim>\<open>X2 is not None\<close> where the
  JDA notebook tests \<^verbatim>\<open>if X2:\<close>.
\<close>

definition TCA_kernel :: "string option \<Rightarrow> ndarray \<Rightarrow> ndarray option \<Rightarrow> real \<Rightarrow> error + ndarray option" where
  "TCA_kernel ker X1 X2 g =
     (if ker = None \<or> ker = Some [] \<or> ker = Some ''primal'' then Inr (Some X1)
      else if ker = Some ''linear'' then
        (case X2 of
           None \<Rightarrow> Inr (Some (linear_kernel (transposed X1) None))
         | Some B \<Rightarrow> Inr (Some (linear_kernel (transposed X1) (Some (transposed B)))))
      else if ker = Some ''rbf'' then
        (case X2 of
           None \<Rightarrow> Inr (Some (rbf_kernel (transposed X1) None g))
         | Some B \<Rightarrow> Inr (Some (rbf_kernel (transposed X1) (Some (transposed B)) g)))
      else Inr None)"

section \<open>The solver objects\<close>

text \<open>
  \<^verbatim>\<open>TCA.__init__\<close> stores \<^verbatim>\<open>kernel_type\<close>, \<^verbatim>\<open>dim\<close>, \<^verbatim>\<open>lamb\<close> and \<^verbatim>\<open>gamma\<close>;
  \<^verbatim>\<open>JDA.__init__\<close> stores the same four attributes and the iteration count \<^verbatim>\<open>T\<close>.
\<close>

record TCA =
  kernel_type :: "string option"
  dim :: int
  lamb :: real
  gamma :: real

record JDA = TCA +
  T :: int

section \<open>The pooled representation\<close>

definition pooled :: "ndarray \<Rightarrow> ndarray \<Rightarrow> error + ndarray" where
  \<comment> \<open>\<^verbatim>\<open>X = np.hstack((Xs.T, Xt.T))\<close> and
      \<^verbatim>\<open>X = np.true_divide(X, np.linalg.norm(X, axis=0))\<close>, the first two statements of
      \<^verbatim>\<open>TCA.fit\<close> and of \<^verbatim>\<open>JDA.fit_predict\<close>\<close>
  "pooled Xs Xt =
     (case hstack (transposed Xs) (transposed Xt) of
        Inl err \<Rightarrow> Inl err
      | Inr X0 \<Rightarrow> Inr (bc (/) X0 (norm_axis0 X0)))"

section \<open>TCA\<close>

definition tca_project ::
  "eig_solver \<Rightarrow> 'a TCA_scheme \<Rightarrow> ndarray \<Rightarrow> ndarray \<Rightarrow> ndarray \<Rightarrow> nat \<Rightarrow> nat \<Rightarrow> nat
     \<Rightarrow> error + (ndarray \<times> ndarray)" where
  \<comment> \<open>\<^verbatim>\<open>TCA.fit\<close> from \<^verbatim>\<open>K = kernel(...)\<close> to its \<^verbatim>\<open>return\<close>\<close>
  "tca_project eig self X M H m n ns =
     (case TCA_kernel (kernel_type self) X None (gamma self) of
        Inl err \<Rightarrow> Inl err
      | Inr None \<Rightarrow> Inl AttributeError
      | Inr (Some K) \<Rightarrow>
          let n_eye = (if kernel_type self = Some ''primal'' then m else n);
              P = multi_dot K M (transposed K);
              L = bc (*) (scalar (lamb self)) (eye n_eye)
          in if \<not> bc_ok P L then Inl ValueError
             else
               let a = bc (+) P L;
                   b = multi_dot K H (transposed K)
               in (case eig a b of
                     Inl err \<Rightarrow> Inl err
                   | Inr (w, V) \<Rightarrow>
                       let ind = argsort w
                       in (case take_cols V (slice_to ind (dim self)) of
                             Inl err \<Rightarrow> Inl err
                           | Inr A \<Rightarrow>
                               if shape0 A \<noteq> shape0 K then Inl ValueError
                               else
                                 let Z0 = dot (transposed A) K;
                                     Z = bc (/) Z0 (norm_axis0 Z0)
                                 in Inr (transposed (cols_to Z ns), transposed (cols_from Z ns)))))"

definition frob_normalise :: "ndarray \<Rightarrow> ndarray" where
  \<comment> \<open>\<^verbatim>\<open>M = M / np.linalg.norm(M, 'fro')\<close>\<close>
  "frob_normalise M = bc (/) M (scalar (norm_fro M))"

definition marginal_vector :: "nat \<Rightarrow> nat \<Rightarrow> ndarray" where
  \<comment> \<open>\<^verbatim>\<open>np.vstack((1 / ns * np.ones((ns, 1)), -1 / nt * np.ones((nt, 1))))\<close>, for
      \<open>ns\<close> and \<open>nt\<close> that are not zero\<close>
  "marginal_vector ns nt =
     vstack (bc (*) (scalar (1 / real ns)) (ones ns 1))
            (bc (*) (scalar (- 1 / real nt)) (ones nt 1))"

definition centering :: "nat \<Rightarrow> ndarray" where
  \<comment> \<open>\<^verbatim>\<open>H = np.eye(n) - 1 / n * np.ones((n, n))\<close>\<close>
  "centering n = bc (-) (eye n) (bc (*) (scalar (1 / real n)) (ones n n))"

definition tca_M1 :: "nat \<Rightarrow> nat \<Rightarrow> ndarray" where
  \<comment> \<open>\<^verbatim>\<open>M = Q * Q.T\<close>\<close>
  "tca_M1 ns nt = (let Q = marginal_vector ns nt in bc (*) Q (transposed Q))"

definition tca_M :: "nat \<Rightarrow> nat \<Rightarrow> ndarray" where
  \<comment> \<open>the \<^verbatim>\<open>M\<close> that \<^verbatim>\<open>TCA.fit\<close> hands to the eigenproblem\<close>
  "tca_M ns nt = frob_normalise (tca_M1 ns nt)"

definition tca_fit :: "eig_solver \<Rightarrow> 'a TCA_scheme \<Rightarrow> ndarray \<Rightarrow> ndarray \<Rightarrow> error + (ndarray \<times> ndarray)" where
  "tca_fit eig self Xs Xt =
     (case pooled Xs Xt of
        Inl err \<Rightarrow> Inl err
      | Inr X \<Rightarrow>
          let m = shape0 X; n = shape1 X;
              ns = shape0 Xs; nt = shape0 Xt
          in if ns = 0 \<or> nt = 0 then Inl ZeroDivisionError
             else
               let M = tca_M ns nt;
                   H = centering n
               in tca_project eig self X M H m n ns)"

definition tca_fit_predict ::
  "eig_solver \<Rightarrow> classifier \<Rightarrow> 'a TCA_scheme \<Rightarrow> ndarray \<Rightarrow> int list \<Rightarrow> ndarray \<Rightarrow> int list option
     \<Rightarrow> error + (real \<times> int list)" where
  "tca_fit_predict eig clf self Xs Ys Xt Yt =
     (case tca_fit eig self Xs Xt of
        Inl err \<Rightarrow> Inl err
      | Inr (Xs_new, Xt_new) \<Rightarrow>
          (case clf Xs_new Ys Xt_new of
             Inl err \<Rightarrow> Inl err
           | Inr y_pred \<Rightarrow>
               (case accuracy_score Yt y_pred of
                  Inl err \<Rightarrow> Inl err
                | Inr a \<Rightarrow> Inr (a, y_pred))))"

section \<open>JDA\<close>

text \<open>
  The variables of \<^verbatim>\<open>JDA.fit_predict\<close> that live from one iteration of the outer loop
  to the next. \<^verbatim>\<open>e\<close> is assigned before the loop and again inside the loop over the
  classes; \<^verbatim>\<open>acc\<close> is unbound until the first iteration has assigned it.
\<close>

record jda_state =
  e :: ndarray
  Y_tar_pseudo :: "int list option"
  acc :: "real option"
  list_acc :: "real list"

definition where_eq :: "int list \<Rightarrow> int \<Rightarrow> nat list" where
  \<comment> \<open>\<^verbatim>\<open>np.where(Y == c)\<close>: the positions that hold \<open>c\<close>, in order\<close>
  "where_eq Y c = filter (\<lambda>i. Y ! i = c) [0..<length Y]"

definition class_vector :: "nat \<Rightarrow> nat \<Rightarrow> int list \<Rightarrow> int list \<Rightarrow> int \<Rightarrow> error + ndarray" where
  \<comment> \<open>the body of \<^verbatim>\<open>for c in range(1, C + 1)\<close> up to \<^verbatim>\<open>e[np.isinf(e)] = 0\<close>.
      \<^verbatim>\<open>1 / len(...)\<close> divides two Python integers, so a zero count raises; an entry
      of \<open>e\<close> is never infinite and the last assignment changes nothing.\<close>
  "class_vector n ns Ys Yp c =
     (let e0 = zeros n 1;
          tt = where_eq Ys c
      in if length tt = 0 then Inl ZeroDivisionError
         else
           (case assign_rows e0 tt (1 / real (length tt)) of
              Inl err \<Rightarrow> Inl err
            | Inr e1 \<Rightarrow>
                let ind = where_eq Yp c;
                    inds = map (\<lambda>item. item + ns) ind
                in if length ind = 0 then Inl ZeroDivisionError
                   else assign_rows e1 inds (- 1 / real (length ind))))"

definition class_vector_of :: "nat \<Rightarrow> nat \<Rightarrow> int list \<Rightarrow> int list \<Rightarrow> int \<Rightarrow> ndarray" where
  \<comment> \<open>the vector \<^verbatim>\<open>e\<close> of class \<open>c\<close> when neither count is zero, entry by entry: the
      assignment to the target rows comes last (lemma \<open>class_vector_cases\<close>)\<close>
  "class_vector_of n ns Ys Yp c =
     mk n 1 (\<lambda>i j. if i \<in> (\<lambda>item. item + ns) ` set (where_eq Yp c)
                    then - 1 / real (length (where_eq Yp c))
                    else if i \<in> set (where_eq Ys c) then 1 / real (length (where_eq Ys c))
                    else 0)"

fun class_loop ::
  "nat \<Rightarrow> nat \<Rightarrow> int list \<Rightarrow> int list \<Rightarrow> int list \<Rightarrow> ndarray \<times> ndarray \<Rightarrow> error + (ndarray \<times> ndarray)" where
  "class_loop n ns Ys Yp [] (e_cur, N) = Inr (e_cur, N)"
| "class_loop n ns Ys Yp (c # cs) (e_cur, N) =
     (case class_vector n ns Ys Yp c of
        Inl err \<Rightarrow> Inl err
      | Inr e_c \<Rightarrow> class_loop n ns Ys Yp cs (e_c, bc (+) N (dot e_c (transposed e_c))))"

definition conditional_term ::
  "nat \<Rightarrow> nat \<Rightarrow> nat \<Rightarrow> nat \<Rightarrow> int list \<Rightarrow> int list option \<Rightarrow> ndarray \<Rightarrow> error + (ndarray \<times> ndarray)" where
  \<comment> \<open>\<^verbatim>\<open>N = 0\<close> and the \<^verbatim>\<open>if Y_tar_pseudo is not None and len(Y_tar_pseudo) == nt\<close>
      block; the result is the value of \<^verbatim>\<open>e\<close> after the block, and \<^verbatim>\<open>N\<close>\<close>
  "conditional_term n ns nt C Ys Yp_opt e_cur =
     (case Yp_opt of
        None \<Rightarrow> Inr (e_cur, scalar 0)
      | Some Yp \<Rightarrow>
          if length Yp = nt then class_loop n ns Ys Yp [1..int C] (e_cur, scalar 0)
          else Inr (e_cur, scalar 0))"

definition jda_M0 :: "nat \<Rightarrow> ndarray \<Rightarrow> ndarray" where
  \<comment> \<open>\<^verbatim>\<open>M0 = e * e.T * C\<close>, with the value \<^verbatim>\<open>e\<close> has when the iteration starts\<close>
  "jda_M0 C e_cur = bc (*) (bc (*) e_cur (transposed e_cur)) (scalar (real C))"

definition jda_M1 :: "nat \<Rightarrow> ndarray \<Rightarrow> ndarray \<Rightarrow> ndarray" where
  \<comment> \<open>\<^verbatim>\<open>M = M0 + N\<close>\<close>
  "jda_M1 C e_cur N = bc (+) (jda_M0 C e_cur) N"

definition jda_M :: "nat \<Rightarrow> ndarray \<Rightarrow> ndarray \<Rightarrow> ndarray" where
  \<comment> \<open>the \<^verbatim>\<open>M\<close> that an iteration hands to the eigenproblem\<close>
  "jda_M C e_cur N = frob_normalise (jda_M1 C e_cur N)"

definition jda_project ::
  "eig_solver \<Rightarrow> 'a TCA_scheme \<Rightarrow> ndarray \<Rightarrow> ndarray \<Rightarrow> ndarray \<Rightarrow> nat \<Rightarrow> nat \<Rightarrow> nat
     \<Rightarrow> error + (ndarray \<times> ndarray)" where
  \<comment> \<open>one iteration of \<^verbatim>\<open>JDA.fit_predict\<close> from \<^verbatim>\<open>K = kernel(...)\<close> to
      \<^verbatim>\<open>Xs_new, Xt_new = ...\<close>\<close>
  "jda_project eig self X M H m n ns =
     (case kernel (kernel_type self) X None (gamma self) of
        Inl err \<Rightarrow> Inl err
      | Inr None \<Rightarrow> Inl AttributeError
      | Inr (Some K) \<Rightarrow>
          let n_eye = (if kernel_type self = Some ''primal'' then m else n);
              P = multi_dot K M (transposed K);
              L = bc (*) (scalar (lamb self)) (eye n_eye)
          in if \<not> bc_ok P L then Inl ValueError
             else
               let a = bc (+) P L;
                   b = multi_dot K H (transposed K)
               in (case eig a b of
                     Inl err \<Rightarrow> Inl err
                   | Inr (w, V) \<Rightarrow>
                       let ind = argsort w
                       in (case take_cols V (slice_to ind (dim self)) of
                             Inl err \<Rightarrow> Inl err
                           | Inr A \<Rightarrow>
                               if shape0 A \<noteq> shape0 K then Inl ValueError
                               else
                                 let Z0 = dot (transposed A) K;
                                     Z = bc (/) Z0 (norm_axis0 Z0)
                                 in Inr (transposed (cols_to Z ns), transposed (cols_from Z ns)))))"

definition jda_round ::
  "eig_solver \<Rightarrow> classifier \<Rightarrow> 'a TCA_scheme \<Rightarrow> ndarray \<Rightarrow> int list \<Rightarrow> int list option
     \<Rightarrow> nat \<Rightarrow> nat \<Rightarrow> nat \<Rightarrow> nat \<Rightarrow> nat \<Rightarrow> ndarray \<Rightarrow> jda_state \<Rightarrow> error + jda_state" where
  \<comment> \<open>the body of \<^verbatim>\<open>for t in range(self.T)\<close>. \<^verbatim>\<open>M0\<close> is computed from \<^verbatim>\<open>e\<close> before
      the loop over the classes assigns \<^verbatim>\<open>e\<close>; the progress line is not modelled.\<close>
  "jda_round eig clf self X Ys Yt m n ns nt C H st =
     (case conditional_term n ns nt C Ys (Y_tar_pseudo st) (e st) of
        Inl err \<Rightarrow> Inl err
      | Inr (e_new, N) \<Rightarrow>
          (let M = jda_M C (e st) N
           in (case jda_project eig self X M H m n ns of
                    Inl err \<Rightarrow> Inl err
                  | Inr (Xs_new, Xt_new) \<Rightarrow>
                      (case clf Xs_new Ys Xt_new of
                         Inl err \<Rightarrow> Inl err
                       | Inr Yp \<Rightarrow>
                           (case accuracy_score Yt Yp of
                              Inl err \<Rightarrow> Inl err
                            | Inr a \<Rightarrow>
                                Inr \<lparr>e = e_new, Y_tar_pseudo = Some Yp, acc = Some a,
                                     list_acc = list_acc st @ [a]\<rparr>)))))"

fun jda_loop :: "(jda_state \<Rightarrow> error + jda_state) \<Rightarrow> nat \<Rightarrow> jda_state \<Rightarrow> error + jda_state" where
  \<comment> \<open>\<^verbatim>\<open>for t in range(k)\<close>: the body runs \<open>k\<close> times unless it raises\<close>
  "jda_loop body 0 st = Inr st"
| "jda_loop body (Suc k) st =
     (case body st of
        Inl err \<Rightarrow> Inl err
      | Inr st' \<Rightarrow> jda_loop body k st')"

definition jda_run ::
  "eig_solver \<Rightarrow> classifier \<Rightarrow> 'a TCA_scheme \<Rightarrow> ndarray \<Rightarrow> int list \<Rightarrow> ndarray \<Rightarrow> int list option
     \<Rightarrow> nat \<Rightarrow> error + jda_state" where
  \<comment> \<open>\<^verbatim>\<open>JDA.fit_predict\<close> from its first line to the end of iteration \<open>k\<close> of its loop:
      the variables at that point. \<^verbatim>\<open>1 / ns\<close> and \<^verbatim>\<open>-1 / nt\<close> divide Python integers.\<close>
  "jda_run eig clf self Xs Ys Xt Yt k =
     (case pooled Xs Xt of
        Inl err \<Rightarrow> Inl err
      | Inr X \<Rightarrow>
          let m = shape0 X; n = shape1 X;
              ns = shape0 Xs; nt = shape0 Xt
          in if ns = 0 \<or> nt = 0 then Inl ZeroDivisionError
             else
               let e0 = marginal_vector ns nt;
                   C = length (remdups Ys);
                   H = centering n;
                   st0 = \<lparr>e = e0, Y_tar_pseudo = None, acc = None, list_acc = []\<rparr>
               in jda_loop (jda_round eig clf self X Ys Yt m n ns nt C H) k st0)"

definition jda_fit_predict ::
  "eig_solver \<Rightarrow> classifier \<Rightarrow> 'a JDA_scheme \<Rightarrow> ndarray \<Rightarrow> int list \<Rightarrow> ndarray \<Rightarrow> int list option
     \<Rightarrow> error + (real \<times> int list option \<times> real list)" where
  \<comment> \<open>\<^verbatim>\<open>range(self.T)\<close> is empty when \<open>T\<close> is not positive; \<^verbatim>\<open>return acc, ...\<close> reads
      a variable that only an iteration assigns\<close>
  "jda_fit_predict eig clf self Xs Ys Xt Yt =
     (case jda_run eig clf self Xs Ys Xt Yt (nat (T self)) of
        Inl err \<Rightarrow> Inl err
      | Inr st \<Rightarrow>
          (case acc st of
             None \<Rightarrow> Inl UnboundLocalError
           | Some a \<Rightarrow> Inr (a, Y_tar_pseudo st, list_acc st)))"

section \<open>The calls on a store\<close>

text \<open>
  The definitions above pass arrays by value. Here the arrays that the code writes
  into, and the arrays of the caller, live in a store: a reference is an address, a
  numpy call that returns a new array allocates, and an in-place statement replaces
  the contents at an address. The in-place statements of the notebooks are
  \<^verbatim>\<open>X /= np.linalg.norm(X, axis=0)\<close> (the notebooks under \<^verbatim>\<open>shallow/\<close>; the other two
  call \<^verbatim>\<open>np.true_divide\<close>, which returns a new array), the three assignments
  \<^verbatim>\<open>e[...] = ...\<close> of the loop over the classes, and \<^verbatim>\<open>Z /= np.linalg.norm(Z, axis=0)\<close>.
  \<^verbatim>\<open>np.hstack\<close>, \<^verbatim>\<open>np.vstack\<close>, \<^verbatim>\<open>np.zeros\<close>, \<^verbatim>\<open>np.dot\<close> and the two sklearn kernels
  return new arrays; \<^verbatim>\<open>kernel\<close> returns its argument \<^verbatim>\<open>X1\<close> itself for the primal
  kernel, so \<^verbatim>\<open>K\<close> is then another name for \<^verbatim>\<open>X\<close>. \<^verbatim>\<open>.T\<close> and the slices are views
  that the code only reads. An array the code never writes into after creating it
  (\<^verbatim>\<open>M0\<close>, \<^verbatim>\<open>N\<close>, \<^verbatim>\<open>M\<close>, \<^verbatim>\<open>H\<close>, \<^verbatim>\<open>a\<close>, \<^verbatim>\<open>b\<close>, \<^verbatim>\<open>A\<close>, the predicted labels) stays a
  value. The library calls (\<^verbatim>\<open>scipy.linalg.eig\<close>, the classifier,
  \<^verbatim>\<open>accuracy_score\<close>) read their arguments and write to none of them. Every function
  returns the store it leaves, also when it raises.
\<close>

datatype cell = Floats ndarray | Ints "int list"

record store =
  heap :: "nat \<Rightarrow> cell"
  fresh :: nat

definition alloc :: "cell \<Rightarrow> store \<Rightarrow> nat \<times> store" where
  \<comment> \<open>a new array: the next unused address\<close>
  "alloc c s = (fresh s, s\<lparr>heap := (heap s)(fresh s := c), fresh := Suc (fresh s)\<rparr>)"

definition write_floats :: "nat \<Rightarrow> ndarray \<Rightarrow> store \<Rightarrow> store" where
  \<comment> \<open>an in-place statement: new contents at an address that exists\<close>
  "write_floats a A s = s\<lparr>heap := (heap s)(a := Floats A)\<rparr>"

definition floats_at :: "store \<Rightarrow> nat \<Rightarrow> ndarray" where
  \<comment> \<open>the matrix at an address; an integer vector reads as one column\<close>
  "floats_at s a =
     (case heap s a of
        Floats A \<Rightarrow> A
      | Ints ys \<Rightarrow> mk (length ys) 1 (\<lambda>i j. real_of_int (ys ! i)))"

definition ints_at :: "store \<Rightarrow> nat \<Rightarrow> int list" where
  \<comment> \<open>the label vector at an address; a matrix reads as its first column\<close>
  "ints_at s a =
     (case heap s a of
        Ints ys \<Rightarrow> ys
      | Floats A \<Rightarrow> map (\<lambda>i. \<lfloor>el A i 0\<rfloor>) [0..<shape0 A])"

definition h_pooled :: "bool \<Rightarrow> nat \<Rightarrow> nat \<Rightarrow> store \<Rightarrow> (error + nat) \<times> store" where
  \<comment> \<open>the first two statements of \<^verbatim>\<open>fit\<close> and \<^verbatim>\<open>fit_predict\<close>; \<open>inplace\<close> chooses
      \<^verbatim>\<open>X /= ...\<close> over \<^verbatim>\<open>X = np.true_divide(X, ...)\<close>\<close>
  "h_pooled inplace Xs Xt s =
     (case hstack (transposed (floats_at s Xs)) (transposed (floats_at s Xt)) of
        Inl err \<Rightarrow> (Inl err, s)
      | Inr X0 \<Rightarrow>
          (case alloc (Floats X0) s of
             (X, s1) \<Rightarrow>
               let Xn = bc (/) (floats_at s1 X) (norm_axis0 (floats_at s1 X))
               in if inplace then (Inr X, write_floats X Xn s1)
                  else (case alloc (Floats Xn) s1 of (X', s2) \<Rightarrow> (Inr X', s2))))"

definition h_kernel :: "string option \<Rightarrow> nat \<Rightarrow> real \<Rightarrow> store \<Rightarrow> (error + nat option) \<times> store" where
  \<comment> \<open>\<^verbatim>\<open>kernel(self.kernel_type, X, None, gamma=self.gamma)\<close>\<close>
  "h_kernel ker X1 g s =
     (if ker = None \<or> ker = Some [] \<or> ker = Some ''primal'' then (Inr (Some X1), s)
      else if ker = Some ''linear'' then
        (case alloc (Floats (linear_kernel (transposed (floats_at s X1)) None)) s of
           (K, s1) \<Rightarrow> (Inr (Some K), s1))
      else if ker = Some ''rbf'' then
        (case alloc (Floats (rbf_kernel (transposed (floats_at s X1)) None g)) s of
           (K, s1) \<Rightarrow> (Inr (Some K), s1))
      else (Inr None, s))"

definition h_project ::
  "eig_solver \<Rightarrow> 'a TCA_scheme \<Rightarrow> nat \<Rightarrow> ndarray \<Rightarrow> ndarray \<Rightarrow> nat \<Rightarrow> nat \<Rightarrow> nat \<Rightarrow> store
     \<Rightarrow> (error + (ndarray \<times> ndarray)) \<times> store" where
  \<comment> \<open>from \<^verbatim>\<open>K = kernel(...)\<close> to \<^verbatim>\<open>Xs_new, Xt_new = ...\<close>, the same statements in
      \<^verbatim>\<open>TCA.fit\<close> and in \<^verbatim>\<open>JDA.fit_predict\<close>; the two views of \<^verbatim>\<open>Z\<close> are read when
      they are made\<close>
  "h_project eig self X M H m n ns s =
     (case h_kernel (kernel_type self) X (gamma self) s of
        (Inl err, s1) \<Rightarrow> (Inl err, s1)
      | (Inr None, s1) \<Rightarrow> (Inl AttributeError, s1)
      | (Inr (Some K), s1) \<Rightarrow>
          let n_eye = (if kernel_type self = Some ''primal'' then m else n);
              P = multi_dot (floats_at s1 K) M (transposed (floats_at s1 K));
              L = bc (*) (scalar (lamb self)) (eye n_eye)
          in if \<not> bc_ok P L then (Inl ValueError, s1)
             else
               let a = bc (+) P L;
                   b = multi_dot (floats_at s1 K) H (transposed (floats_at s1 K))
               in (case eig a b of
                     Inl err \<Rightarrow> (Inl err, s1)
                   | Inr (w, V) \<Rightarrow>
                       let ind = argsort w
                       in (case take_cols V (slice_to ind (dim self)) of
                             Inl err \<Rightarrow> (Inl err, s1)
                           | Inr A \<Rightarrow>
                               if shape0 A \<noteq> shape0 (floats_at s1 K) then (Inl ValueError, s1)
                               else
                                 (case alloc (Floats (dot (transposed A) (floats_at s1 K))) s1 of
                                    (Z, s2) \<Rightarrow>
                                      let s3 = write_floats Z
                                                 (bc (/) (floats_at s2 Z)
                                                    (norm_axis0 (floats_at s2 Z))) s2
                                      in (Inr (transposed (cols_to (floats_at s3 Z) ns),
                                               transposed (cols_from (floats_at s3 Z) ns)),
                                          s3)))))"

definition h_class_vector ::
  "nat \<Rightarrow> nat \<Rightarrow> nat \<Rightarrow> int list \<Rightarrow> int \<Rightarrow> store \<Rightarrow> (error + nat) \<times> store" where
  \<comment> \<open>\<^verbatim>\<open>e = np.zeros((n, 1))\<close> and the assignments into it\<close>
  "h_class_vector n ns Ys Yp c s =
     (case alloc (Floats (zeros n 1)) s of
        (e_c, s1) \<Rightarrow>
          let tt = where_eq (ints_at s1 Ys) c
          in if length tt = 0 then (Inl ZeroDivisionError, s1)
             else
               (case assign_rows (floats_at s1 e_c) tt (1 / real (length tt)) of
                  Inl err \<Rightarrow> (Inl err, s1)
                | Inr e1 \<Rightarrow>
                    let s2 = write_floats e_c e1 s1;
                        ind = where_eq Yp c;
                        inds = map (\<lambda>item. item + ns) ind
                    in if length ind = 0 then (Inl ZeroDivisionError, s2)
                       else
                         (case assign_rows (floats_at s2 e_c) inds (- 1 / real (length ind)) of
                            Inl err \<Rightarrow> (Inl err, s2)
                          | Inr e2 \<Rightarrow> (Inr e_c, write_floats e_c e2 s2))))"

fun h_class_loop ::
  "nat \<Rightarrow> nat \<Rightarrow> nat \<Rightarrow> int list \<Rightarrow> int list \<Rightarrow> nat \<times> ndarray \<Rightarrow> store
     \<Rightarrow> (error + (nat \<times> ndarray)) \<times> store" where
  "h_class_loop n ns Ys Yp [] (e_cur, N) s = (Inr (e_cur, N), s)"
| "h_class_loop n ns Ys Yp (c # cs) (e_cur, N) s =
     (case h_class_vector n ns Ys Yp c s of
        (Inl err, s1) \<Rightarrow> (Inl err, s1)
      | (Inr e_c, s1) \<Rightarrow>
          h_class_loop n ns Ys Yp cs
            (e_c, bc (+) N (dot (floats_at s1 e_c) (transposed (floats_at s1 e_c)))) s1)"

definition h_conditional_term ::
  "nat \<Rightarrow> nat \<Rightarrow> nat \<Rightarrow> nat \<Rightarrow> nat \<Rightarrow> int list option \<Rightarrow> nat \<Rightarrow> store
     \<Rightarrow> (error + (nat \<times> ndarray)) \<times> store" where
  "h_conditional_term n ns nt C Ys Yp_opt e_cur s =
     (case Yp_opt of
        None \<Rightarrow> (Inr (e_cur, scalar 0), s)
      | Some Yp \<Rightarrow>
          if length Yp = nt then h_class_loop n ns Ys Yp [1..int C] (e_cur, scalar 0) s
          else (Inr (e_cur, scalar 0), s))"

record h_state =
  h_e :: nat
  h_Y_tar_pseudo :: "int list option"
  h_acc :: "real option"
  h_list_acc :: "real list"

definition h_jda_round ::
  "eig_solver \<Rightarrow> classifier \<Rightarrow> 'a TCA_scheme \<Rightarrow> nat \<Rightarrow> nat \<Rightarrow> nat option
     \<Rightarrow> nat \<Rightarrow> nat \<Rightarrow> nat \<Rightarrow> nat \<Rightarrow> nat \<Rightarrow> ndarray \<Rightarrow> h_state \<Rightarrow> store
     \<Rightarrow> (error + h_state) \<times> store" where
  \<comment> \<open>the body of the outer loop; \<^verbatim>\<open>M0\<close> is a new array, made from \<^verbatim>\<open>e\<close> before the
      loop over the classes runs\<close>
  "h_jda_round eig clf self X Ys Yt m n ns nt C H hst s =
     (let M0 = jda_M0 C (floats_at s (h_e hst))
      in (case h_conditional_term n ns nt C Ys (h_Y_tar_pseudo hst) (h_e hst) s of
            (Inl err, s1) \<Rightarrow> (Inl err, s1)
          | (Inr (e_new, N), s1) \<Rightarrow>
              let M = frob_normalise (bc (+) M0 N)
              in (case h_project eig self X M H m n ns s1 of
                    (Inl err, s2) \<Rightarrow> (Inl err, s2)
                  | (Inr (Xs_new, Xt_new), s2) \<Rightarrow>
                      (case clf Xs_new (ints_at s2 Ys) Xt_new of
                         Inl err \<Rightarrow> (Inl err, s2)
                       | Inr Yp \<Rightarrow>
                           (case accuracy_score (map_option (ints_at s2) Yt) Yp of
                              Inl err \<Rightarrow> (Inl err, s2)
                            | Inr a \<Rightarrow>
                                (Inr \<lparr>h_e = e_new, h_Y_tar_pseudo = Some Yp, h_acc = Some a,
                                      h_list_acc = h_list_acc hst @ [a]\<rparr>, s2))))))"

fun h_jda_loop ::
  "(h_state \<Rightarrow> store \<Rightarrow> (error + h_state) \<times> store) \<Rightarrow> nat \<Rightarrow> h_state \<Rightarrow> store
     \<Rightarrow> (error + h_state) \<times> store" where
  "h_jda_loop body 0 hst s = (Inr hst, s)"
| "h_jda_loop body (Suc k) hst s =
     (case body hst s of
        (Inl err, s1) \<Rightarrow> (Inl err, s1)
      | (Inr hst', s1) \<Rightarrow> h_jda_loop body k hst' s1)"

definition h_jda_fit_predict ::
  "bool \<Rightarrow> eig_solver \<Rightarrow> classifier \<Rightarrow> 'a JDA_scheme \<Rightarrow> nat \<Rightarrow> nat \<Rightarrow> nat \<Rightarrow> nat option \<Rightarrow> store
     \<Rightarrow> (error + (real \<times> int list option \<times> real list)) \<times> store" where
  \<comment> \<open>\<^verbatim>\<open>JDA.fit_predict(Xs, Ys, Xt, Yt)\<close> on references to the caller's arrays\<close>
  "h_jda_fit_predict inplace eig clf self Xs Ys Xt Yt s =
     (case h_pooled inplace Xs Xt s of
        (Inl err, s1) \<Rightarrow> (Inl err, s1)
      | (Inr X, s1) \<Rightarrow>
          let m = shape0 (floats_at s1 X); n = shape1 (floats_at s1 X);
              ns = shape0 (floats_at s1 Xs); nt = shape0 (floats_at s1 Xt)
          in if ns = 0 \<or> nt = 0 then (Inl ZeroDivisionError, s1)
             else
               (case alloc (Floats (marginal_vector ns nt)) s1 of
                  (e0, s2) \<Rightarrow>
                    let C = length (remdups (ints_at s2 Ys));
                        H = centering n;
                        hst0 = \<lparr>h_e = e0, h_Y_tar_pseudo = None, h_acc = None, h_list_acc = []\<rparr>
                    in (case h_jda_loop (h_jda_round eig clf self X Ys Yt m n ns nt C H)
                               (nat (T self)) hst0 s2 of
                          (Inl err, s3) \<Rightarrow> (Inl err, s3)
                        | (Inr hst, s3) \<Rightarrow>
                            (case h_acc hst of
                               None \<Rightarrow> (Inl UnboundLocalError, s3)
                             | Some a \<Rightarrow>
                                 (Inr (a, h_Y_tar_pseudo hst, h_list_acc hst), s3)))))"

definition h_tca_fit ::
  "bool \<Rightarrow> eig_solver \<Rightarrow> 'a TCA_scheme \<Rightarrow> nat \<Rightarrow> nat \<Rightarrow> store
     \<Rightarrow> (error + (ndarray \<times> ndarray)) \<times> store" where
  "h_tca_fit inplace eig self Xs Xt s =
     (case h_pooled inplace Xs Xt s of
        (Inl err, s1) \<Rightarrow> (Inl err, s1)
      | (Inr X, s1) \<Rightarrow>
          let m = shape0 (floats_at s1 X); n = shape1 (floats_at s1 X);
              ns = shape0 (floats_at s1 Xs); nt = shape0 (floats_at s1 Xt)
          in if ns = 0 \<or> nt = 0 then (Inl ZeroDivisionError, s1)
             else h_project eig self X (tca_M ns nt) (centering n) m n ns s1)"

definition h_tca_fit_predict ::
  "bool \<Rightarrow> eig_solver \<Rightarrow> classifier \<Rightarrow> 'a TCA_scheme \<Rightarrow> nat \<Rightarrow> nat \<Rightarrow> nat \<Rightarrow> nat option \<Rightarrow> store
     \<Rightarrow> (error + (real \<times> int list)) \<times> store" where
  \<comment> \<open>\<^verbatim>\<open>TCA.fit_predict(Xs, Ys, Xt, Yt)\<close> on references to the caller's arrays\<close>
  "h_tca_fit_predict inplace eig clf self Xs Ys Xt Yt s =
     (case h_tca_fit inplace eig self Xs Xt s of
        (Inl err, s1) \<Rightarrow> (Inl err, s1)
      | (Inr (Xs_new, Xt_new), s1) \<Rightarrow>
          (case clf Xs_new (ints_at s1 Ys) Xt_new of
             Inl err \<Rightarrow> (Inl err, s1)
           | Inr y_pred \<Rightarrow>
               (case accuracy_score (map_option (ints_at s1) Yt) y_pred of
                  Inl err \<Rightarrow> (Inl err, s1)
                | Inr a \<Rightarrow> (Inr (a, y_pred), s1))))"

definition unchanged_below :: "store \<Rightarrow> store \<Rightarrow> bool" where
  \<comment> \<open>every address in use in \<open>s\<close> is in use in \<open>s'\<close> and holds what it held\<close>
  "unchanged_below s s' \<longleftrightarrow> fresh s \<le> fresh s' \<and> (\<forall>a<fresh s. heap s' a = heap s a)"

definition abs_state :: "store \<Rightarrow> h_state \<Rightarrow> jda_state" where
  \<comment> \<open>the loop variables by value: \<^verbatim>\<open>e\<close> read from the store\<close>
  "abs_state s hst =
     \<lparr>e = floats_at s (h_e hst), Y_tar_pseudo = h_Y_tar_pseudo hst, acc = h_acc hst,
      list_acc = h_list_acc hst\<rparr>"

definition store_of :: "cell list \<Rightarrow> store" where
  \<comment> \<open>the store of a caller that holds these arrays and nothing else, at the addresses
      \<open>0\<close>, \<open>1\<close>, ...\<close>
  "store_of cs = \<lparr>heap = (\<lambda>a. if a < length cs then cs ! a else Ints []), fresh = length cs\<rparr>"

section \<open>Fixed answers for the library calls\<close>

text \<open>
  The eigensolver (\<^verbatim>\<open>scipy.linalg.eig\<close>) and the 1-nearest-neighbour classifier
  (\<^verbatim>\<open>KNeighborsClassifier(n_neighbors=1)\<close>, \<^verbatim>\<open>fit\<close> then \<^verbatim>\<open>predict\<close>) are
  parameters of the model. An evaluation at a concrete input fixes what the two calls
  answer: these eigenpairs, these predicted labels.
\<close>

definition eig_returning :: "complex list \<Rightarrow> ndarray \<Rightarrow> eig_solver" where
  "eig_returning w V a b = Inr (w, V)"

definition clf_returning :: "int list \<Rightarrow> classifier" where
  "clf_returning y_pred Xs_new Ys Xt_new = Inr y_pred"

definition eig_units :: eig_solver where
  \<comment> \<open>a solver that answers a problem of size \<open>k\<close> with \<open>k\<close> eigenvalues and the \<open>k\<close>
      unit vectors\<close>
  "eig_units a b = Inr (map of_nat [0..<shape0 a], eye (shape0 a))"

section \<open>Facts about arrays\<close>

lemma shape0_mk [simp]: "shape0 (mk r c f) = r"
  by (simp add: mk_def)

lemma shape1_mk [simp]: "shape1 (mk r c f) = c"
  by (simp add: mk_def)

lemma el_mk [simp]: "i < r \<Longrightarrow> j < c \<Longrightarrow> el (mk r c f) i j = f i j"
  by (simp add: mk_def el_def)

lemma mk_cong: "(\<And>i j. i < r \<Longrightarrow> j < c \<Longrightarrow> f i j = g i j) \<Longrightarrow> mk r c f = mk r c g"
  by (simp add: mk_def)

lemma bget_el: "i < shape0 A \<Longrightarrow> j < shape1 A \<Longrightarrow> bget A i j = el A i j"
  by (auto simp: bget_def)

lemma bget_scalar [simp]: "bget (scalar x) i j = x"
  by (simp add: bget_def scalar_def)

lemma shape_scalar [simp]: "shape0 (scalar x) = 1" "shape1 (scalar x) = 1"
  by (simp_all add: scalar_def)

lemma bdim_1 [simp]: "bdim p 1 = p" "bdim p (Suc 0) = p"
  by (simp_all add: bdim_def)

lemma bc_scalar: "bc f A (scalar x) = mk (shape0 A) (shape1 A) (\<lambda>i j. f (el A i j) x)"
  unfolding bc_def by (simp, rule mk_cong) (simp add: bget_el)

lemma bdim_left_1 [simp]: "bdim 1 q = q" "bdim (Suc 0) q = q"
  by (simp_all add: bdim_def)

lemma bc_scalar_left: "bc f (scalar x) A = mk (shape0 A) (shape1 A) (\<lambda>i j. f x (bget A i j))"
  unfolding bc_def by simp

lemma outer_column:
  "bc (*) (mk n (Suc 0) q) (transposed (mk n (Suc 0) q)) = mk n n (\<lambda>i j. q i 0 * q j 0)"
  unfolding bc_def transposed_def
  by (simp add: bdim_def, rule mk_cong) (auto simp: bget_def)

lemma marginal_vector_eq:
  "marginal_vector ns nt =
     mk (ns + nt) (Suc 0) (\<lambda>i j. if i < ns then 1 / real ns else - 1 / real nt)"
  unfolding marginal_vector_def vstack_def bc_scalar_left ones_def
  by (simp, rule mk_cong) (auto simp: bget_def)

lemma shape_transposed [simp]:
  "shape0 (transposed A) = shape1 A" "shape1 (transposed A) = shape0 A"
  by (simp_all add: transposed_def)

lemma shape_bc [simp]:
  "shape0 (bc f A B) = bdim (shape0 A) (shape0 B)"
  "shape1 (bc f A B) = bdim (shape1 A) (shape1 B)"
  by (simp_all add: bc_def)

lemma shape_eye [simp]: "shape0 (eye k) = k" "shape1 (eye k) = k"
  by (simp_all add: eye_def)

lemma shape_dot [simp]: "shape0 (dot A B) = shape0 A" "shape1 (dot A B) = shape1 B"
  by (simp_all add: dot_def)

lemma shape_multi_dot [simp]:
  "shape0 (multi_dot A B C) = shape0 A" "shape1 (multi_dot A B C) = shape1 C"
  by (simp_all add: multi_dot_def)

lemma shape_norm_axis0 [simp]: "shape0 (norm_axis0 A) = 1" "shape1 (norm_axis0 A) = shape1 A"
  by (simp_all add: norm_axis0_def)

lemma shape_cols [simp]: "shape0 (cols_to Z k) = shape0 Z" "shape0 (cols_from Z k) = shape0 Z"
  by (simp_all add: cols_to_def cols_from_def)

lemmas array_eval = mk_def el_def zeros_def ones_def eye_def scalar_def transposed_def bdim_def
  bc_ok_def bget_def bc_def dot_def multi_dot_def hstack_def vstack_def norm_axis0_def
  norm_fro_def cols_to_def cols_from_def take_cols_def slice_to_def assign_rows_def
  truth_value_def

subsection \<open>Sorting and slicing\<close>

lemma length_argsort [simp]: "length (argsort w) = length w"
  by (simp add: argsort_def)

lemma set_argsort [simp]: "set (argsort w) = {..<length w}"
  by (auto simp: argsort_def)

lemma length_slice_to:
  "length (slice_to xs d) = (if 0 \<le> d then min (nat d) (length xs) else length xs - nat (- d))"
  by (simp add: slice_to_def min.commute)

lemma set_slice_to: "set (slice_to xs d) \<subseteq> set xs"
  by (auto simp: slice_to_def dest: in_set_takeD)

lemma basis_selection_total:
  assumes "shape1 V = length w"
  shows "\<exists>A. take_cols V (slice_to (argsort w) d) = Inr A \<and> shape0 A = shape0 V \<and>
     shape1 A = (if 0 \<le> d then min (nat d) (length w) else length w - nat (- d))"
proof -
  have "list_all (\<lambda>i. i < shape1 V) (slice_to (argsort w) d)"
    using set_slice_to [of "argsort w" d] assms by (auto simp: list_all_iff)
  then show ?thesis
    by (simp add: take_cols_def length_slice_to)
qed

subsection \<open>The Frobenius norm\<close>

lemma norm_fro_mk:
  "norm_fro (mk r c f) = sqrt (\<Sum>i\<leftarrow>[0..<r]. \<Sum>j\<leftarrow>[0..<c]. (f i j)\<^sup>2)"
proof -
  have "(\<Sum>i\<leftarrow>[0..<r]. \<Sum>j\<leftarrow>[0..<c]. (el (mk r c f) i j)\<^sup>2)
      = (\<Sum>i\<leftarrow>[0..<r]. \<Sum>j\<leftarrow>[0..<c]. (f i j)\<^sup>2)"
    by (intro arg_cong[where f=sum_list] map_cong refl) simp
  then show ?thesis by (simp add: norm_fro_def)
qed

lemma sumsq_scale:
  "(\<Sum>i\<leftarrow>xs. \<Sum>j\<leftarrow>ys. (f i j * k)\<^sup>2) = (\<Sum>i\<leftarrow>xs. \<Sum>j\<leftarrow>ys. (f i j)\<^sup>2) * k\<^sup>2"
  for k :: real
  by (simp add: power_mult_distrib sum_list_mult_const)

lemma norm_fro_scale:
  "norm_fro (mk r c (\<lambda>i j. f i j * k)) = norm_fro (mk r c f) * \<bar>k\<bar>"
  by (simp add: norm_fro_mk sumsq_scale real_sqrt_mult)


lemma frob_normalise_eq:
  "frob_normalise M = mk (shape0 M) (shape1 M) (\<lambda>i j. el M i j / norm_fro M)"
  by (simp add: frob_normalise_def bc_scalar)

lemma frob_normalise_mk:
  "frob_normalise (mk r c f) = mk r c (\<lambda>i j. f i j / norm_fro (mk r c f))"
  by (simp add: frob_normalise_eq, rule mk_cong) simp

lemma frob_normalise_scale:
  assumes "0 < k"
  shows "frob_normalise (mk r c (\<lambda>i j. f i j * k)) = frob_normalise (mk r c f)"
  using assms by (simp add: frob_normalise_mk norm_fro_scale)


section \<open>Facts about the iteration\<close>

subsection \<open>The loop over the classes\<close>

lemma where_eq_bound: "i \<in> set (where_eq Y c) \<Longrightarrow> i < length Y"
  by (simp add: where_eq_def)

lemma where_eq_empty_iff: "where_eq Y c = [] \<longleftrightarrow> c \<notin> set Y"
  by (auto simp: where_eq_def filter_empty_conv in_set_conv_nth)

lemma class_vector_cases:
  assumes "length Ys \<le> n" and "ns + length Yp \<le> n"
  shows "class_vector n ns Ys Yp c =
     (if c \<notin> set Ys \<or> c \<notin> set Yp then Inl ZeroDivisionError
      else Inr (class_vector_of n ns Ys Yp c))"
proof -
  have src: "list_all (\<lambda>i. i < n) (where_eq Ys c)"
    using assms(1) by (auto simp: list_all_iff dest: where_eq_bound)
  have tgt: "list_all (\<lambda>i. i < n) (map (\<lambda>item. item + ns) (where_eq Yp c))"
    using assms(2) by (auto simp: list_all_iff dest!: where_eq_bound)
  show ?thesis
    unfolding class_vector_def class_vector_of_def
    using src tgt
    apply (simp add: Let_def assign_rows_def zeros_def where_eq_empty_iff)
    apply (intro impI mk_cong)
    apply auto
    done
qed

lemma class_loop_zero:
  assumes "length Ys \<le> n" and "ns + length Yp \<le> n"
    and "c \<in> set cs" and "c \<notin> set Ys \<or> c \<notin> set Yp"
  shows "class_loop n ns Ys Yp cs (e_cur, N) = Inl ZeroDivisionError"
  using assms(3,4)
proof (induction cs arbitrary: e_cur N)
  case Nil
  then show ?case by simp
next
  case (Cons a cs)
  show ?case
  proof (cases "a \<notin> set Ys \<or> a \<notin> set Yp")
    case True
    then show ?thesis
      by (simp add: class_vector_cases [OF assms(1,2)])
  next
    case False
    with Cons.prems have "c \<in> set cs" by auto
    with Cons.IH Cons.prems(2) False show ?thesis
      by (simp add: class_vector_cases [OF assms(1,2)])
  qed
qed

lemma class_loop_ok:
  assumes "length Ys \<le> n" and "ns + length Yp \<le> n"
    and "set cs \<subseteq> set Ys \<inter> set Yp"
  shows "\<exists>e_new N'. class_loop n ns Ys Yp cs (e_cur, N) = Inr (e_new, N') \<and>
           e_new = (if cs = [] then e_cur else class_vector_of n ns Ys Yp (last cs))"
  using assms(3)
proof (induction cs arbitrary: e_cur N)
  case Nil
  then show ?case by simp
next
  case (Cons a cs)
  let ?ea = "class_vector_of n ns Ys Yp a"
  from Cons.prems have a: "a \<in> set Ys" "a \<in> set Yp" and cs: "set cs \<subseteq> set Ys \<inter> set Yp"
    by auto
  from Cons.IH [OF cs, of ?ea "bc (+) N (dot ?ea (transposed ?ea))"]
  obtain e_new N' where
    "class_loop n ns Ys Yp cs (?ea, bc (+) N (dot ?ea (transposed ?ea))) = Inr (e_new, N')"
    "e_new = (if cs = [] then ?ea else class_vector_of n ns Ys Yp (last cs))"
    by blast
  with a show ?case
    by (simp add: class_vector_cases [OF assms(1,2)])
qed

lemma class_loop_Inr:
  assumes "length Ys \<le> n" and "ns + length Yp \<le> n"
    and "class_loop n ns Ys Yp cs (e_cur, N) = Inr (e_new, N')"
  shows "set cs \<subseteq> set Ys \<inter> set Yp \<and>
         e_new = (if cs = [] then e_cur else class_vector_of n ns Ys Yp (last cs))"
proof -
  have sub: "set cs \<subseteq> set Ys \<inter> set Yp"
  proof (rule ccontr)
    assume "\<not> set cs \<subseteq> set Ys \<inter> set Yp"
    then obtain c where "c \<in> set cs" "c \<notin> set Ys \<or> c \<notin> set Yp" by auto
    from class_loop_zero [OF assms(1,2) this] assms(3) show False by simp
  qed
  with class_loop_ok [OF assms(1,2) sub, of e_cur N] assms(3) show ?thesis by simp
qed

lemma upto_1_set: "set [1..int C] = {1..int C}"
  by simp

lemma last_upto_1: "0 < C \<Longrightarrow> last [1..int C] = int C"
  by (simp add: upto_rec2)

lemma missing_class:
  assumes "set Ys \<noteq> {1..int (length (remdups Ys))}"
  shows "\<exists>c\<in>{1..int (length (remdups Ys))}. c \<notin> set Ys"
proof (rule ccontr)
  assume "\<not> (\<exists>c\<in>{1..int (length (remdups Ys))}. c \<notin> set Ys)"
  then have sub: "{1..int (length (remdups Ys))} \<subseteq> set Ys" by auto
  have "card {1..int (length (remdups Ys))} = length (remdups Ys)"
    by simp
  also have "\<dots> = card (set Ys)"
    by (rule length_remdups_card_conv)
  finally have "{1..int (length (remdups Ys))} = set Ys"
    by (rule card_subset_eq [OF finite_set sub])
  with assms show False by simp
qed

lemma conditional_term_zero:
  assumes "length Ys \<le> n" and "ns + nt \<le> n" and "length Yp = nt"
    and "c \<in> {1..int C}" and "c \<notin> set Ys \<or> c \<notin> set Yp"
  shows "conditional_term n ns nt C Ys (Some Yp) e_cur = Inl ZeroDivisionError"
  using assms class_loop_zero [of Ys n ns Yp c "[1..int C]" e_cur "scalar 0"]
  by (simp add: conditional_term_def)

lemma class_vector_cong:
  assumes "where_eq Ys c = where_eq Ys' c" and "where_eq Yp c = where_eq Yp' c"
  shows "class_vector n ns Ys Yp c = class_vector n ns Ys' Yp' c"
  unfolding class_vector_def assms by (rule refl)

lemma class_loop_cong:
  assumes "\<And>c. c \<in> set cs \<Longrightarrow> where_eq Ys c = where_eq Ys' c \<and> where_eq Yp c = where_eq Yp' c"
  shows "class_loop n ns Ys Yp cs (e_cur, N) = class_loop n ns Ys' Yp' cs (e_cur, N)"
  using assms
proof (induction cs arbitrary: e_cur N)
  case Nil
  show ?case by simp
next
  case (Cons a cs)
  have cv: "class_vector n ns Ys Yp a = class_vector n ns Ys' Yp' a"
    by (rule class_vector_cong) (simp_all add: Cons.prems)
  have tl: "\<And>c. c \<in> set cs \<Longrightarrow> where_eq Ys c = where_eq Ys' c \<and> where_eq Yp c = where_eq Yp' c"
    by (rule Cons.prems) simp
  show ?case
  proof (cases "class_vector n ns Ys' Yp' a")
    case (Inl err)
    with cv show ?thesis by simp
  next
    case (Inr e_c)
    with cv Cons.IH [OF tl, of e_c "bc (+) N (dot e_c (transposed e_c))"] show ?thesis
      by simp
  qed
qed

subsection \<open>One iteration\<close>

lemma accuracy_score_Inr:
  "accuracy_score Yt Yp = Inr a \<Longrightarrow> \<exists>yt. Yt = Some yt \<and> length yt = length Yp"
  by (auto simp: accuracy_score_def split: option.splits if_splits)

lemma accuracy_score_None [simp]: "accuracy_score None Yp = Inl TypeError"
  by (simp add: accuracy_score_def)

lemma accuracy_score_Some:
  "length yt = length Yp \<Longrightarrow> \<exists>a. accuracy_score (Some yt) Yp = Inr a"
  by (simp add: accuracy_score_def)

lemma jda_round_Inr:
  assumes "jda_round eig clf self X Ys Yt m n ns nt C H st = Inr st'"
  shows "\<exists>e_new N Xs_new Xt_new Yp a.
      conditional_term n ns nt C Ys (Y_tar_pseudo st) (e st) = Inr (e_new, N) \<and>
      jda_project eig self X (jda_M C (e st) N) H m n ns = Inr (Xs_new, Xt_new) \<and>
      clf Xs_new Ys Xt_new = Inr Yp \<and>
      accuracy_score Yt Yp = Inr a \<and>
      st' = \<lparr>e = e_new, Y_tar_pseudo = Some Yp, acc = Some a, list_acc = list_acc st @ [a]\<rparr>"
  using assms unfolding jda_round_def
  by (auto simp: Let_def split: sum.splits prod.splits)

lemma jda_round_conditional_Inl:
  assumes "conditional_term n ns nt C Ys (Y_tar_pseudo st) (e st) = Inl err"
  shows "jda_round eig clf self X Ys Yt m n ns nt C H st = Inl err"
  using assms by (simp add: jda_round_def)

lemma jda_round_None: "\<exists>err. jda_round eig clf self X Ys None m n ns nt C H st = Inl err"
  unfolding jda_round_def by (auto simp: Let_def split: sum.splits prod.splits)

lemma jda_round_Yt:
  assumes "jda_round eig clf self X Ys Yt m n ns nt C H st = Inr st'"
  shows "jda_round eig clf self X Ys None m n ns nt C H st = Inl TypeError"
  using jda_round_Inr [OF assms] unfolding jda_round_def by (auto simp: Let_def)

subsection \<open>The outer loop\<close>

lemma jda_loop_add:
  "jda_loop body (j + k) st =
     (case jda_loop body j st of Inl err \<Rightarrow> Inl err | Inr st' \<Rightarrow> jda_loop body k st')"
  by (induction j arbitrary: st) (auto split: sum.splits)

lemma jda_loop_Suc_end:
  "jda_loop body (Suc k) st =
     (case jda_loop body k st of Inl err \<Rightarrow> Inl err | Inr st' \<Rightarrow> body st')"
  using jda_loop_add [of body k 1 st] by (auto split: sum.splits)

lemma jda_loop_history:
  assumes "jda_loop (jda_round eig clf self X Ys Yt m n ns nt C H) k st = Inr st'"
  shows "\<exists>accs. length accs = k \<and> list_acc st' = list_acc st @ accs \<and>
           (0 < k \<longrightarrow> acc st' = Some (last accs) \<and> (\<exists>yp. Y_tar_pseudo st' = Some yp))"
  using assms
proof (induction k arbitrary: st')
  case 0
  then show ?case by simp
next
  case (Suc k)
  from Suc.prems [unfolded jda_loop_Suc_end] obtain stk where stk:
    "jda_loop (jda_round eig clf self X Ys Yt m n ns nt C H) k st = Inr stk"
    "jda_round eig clf self X Ys Yt m n ns nt C H stk = Inr st'"
    by (auto split: sum.splits)
  from Suc.IH [OF stk(1)] obtain accs where accs:
    "length accs = k" "list_acc stk = list_acc st @ accs" by blast
  from jda_round_Inr [OF stk(2)] obtain a yp where
    "acc st' = Some a" "Y_tar_pseudo st' = Some yp" "list_acc st' = list_acc stk @ [a]"
    by auto
  with accs show ?case
    by (intro exI [of _ "accs @ [a]"]) simp
qed

lemma jda_loop_prefix:
  assumes "jda_loop (jda_round eig clf self X Ys Yt m n ns nt C H) k st = Inr st'"
    and "j \<le> k"
  shows "\<exists>stj. jda_loop (jda_round eig clf self X Ys Yt m n ns nt C H) j st = Inr stj \<and>
           list_acc stj = take (length (list_acc st) + j) (list_acc st')"
proof -
  let ?body = "jda_round eig clf self X Ys Yt m n ns nt C H"
  from assms jda_loop_add [of ?body j "k - j" st]
  obtain stj where stj: "jda_loop ?body j st = Inr stj" "jda_loop ?body (k - j) stj = Inr st'"
    by (auto split: sum.splits)
  from jda_loop_history [OF stj(1)] obtain a1 where
    a1: "length a1 = j" "list_acc stj = list_acc st @ a1" by blast
  from jda_loop_history [OF stj(2)] obtain a2 where
    a2: "list_acc st' = list_acc stj @ a2" by blast
  from a1 a2 stj(1) show ?thesis by simp
qed

lemma jda_project_cong:
  assumes "kernel_type a = kernel_type b" "dim a = dim b" "lamb a = lamb b" "gamma a = gamma b"
  shows "jda_project eig a X M H m n ns = jda_project eig b X M H m n ns"
  unfolding jda_project_def assms by (rule refl)

lemma jda_round_cong:
  assumes "kernel_type a = kernel_type b" "dim a = dim b" "lamb a = lamb b" "gamma a = gamma b"
  shows "jda_round eig clf a X Ys Yt m n ns nt C H st = jda_round eig clf b X Ys Yt m n ns nt C H st"
  unfolding jda_round_def jda_project_cong [OF assms] by (rule refl)

subsection \<open>The whole call\<close>

lemma pooled_Inr:
  assumes "pooled Xs Xt = Inr X"
  shows "shape1 Xs = shape1 Xt \<and> shape0 X = shape1 Xs \<and> shape1 X = shape0 Xs + shape0 Xt"
  using assms by (auto simp: pooled_def hstack_def bdim_def split: if_splits)

lemma pooled_ok: "shape1 Xs = shape1 Xt \<Longrightarrow> \<exists>X. pooled Xs Xt = Inr X"
  by (simp add: pooled_def hstack_def)

lemma jda_run_loop:
  assumes "pooled Xs Xt = Inr X" and "shape0 Xs \<noteq> 0" and "shape0 Xt \<noteq> 0"
  shows "jda_run eig clf self Xs Ys Xt Yt k =
     jda_loop (jda_round eig clf self X Ys Yt (shape0 X) (shape1 X) (shape0 Xs) (shape0 Xt)
                 (length (remdups Ys)) (centering (shape1 X))) k
       \<lparr>e = marginal_vector (shape0 Xs) (shape0 Xt), Y_tar_pseudo = None, acc = None,
        list_acc = []\<rparr>"
  using assms by (simp add: jda_run_def Let_def)

lemma jda_run_Inr:
  assumes "jda_run eig clf self Xs Ys Xt Yt k = Inr st"
  shows "\<exists>X. pooled Xs Xt = Inr X \<and> shape0 Xs \<noteq> 0 \<and> shape0 Xt \<noteq> 0"
  using assms by (auto simp: jda_run_def Let_def split: sum.splits if_splits)

lemma jda_run_0:
  assumes "jda_run eig clf self Xs Ys Xt Yt 0 = Inr st"
  shows "acc st = None"
  using assms by (auto simp: jda_run_def Let_def split: sum.splits if_splits)

lemma jda_fit_predict_Inr:
  assumes "jda_fit_predict eig clf self Xs Ys Xt Yt = Inr (a, Yp, accs)"
  shows "\<exists>st. jda_run eig clf self Xs Ys Xt Yt (nat (T self)) = Inr st \<and> acc st = Some a \<and>
           Y_tar_pseudo st = Yp \<and> list_acc st = accs \<and> 0 < nat (T self)"
proof -
  from assms obtain st where st: "jda_run eig clf self Xs Ys Xt Yt (nat (T self)) = Inr st"
    "acc st = Some a" "Y_tar_pseudo st = Yp" "list_acc st = accs"
    by (auto simp: jda_fit_predict_def split: sum.splits option.splits)
  have "0 < nat (T self)"
  proof (rule ccontr)
    assume "\<not> 0 < nat (T self)"
    with st(1) jda_run_0 [of eig clf self Xs Ys Xt Yt st] st(2) show False by simp
  qed
  with st show ?thesis by blast
qed

lemma jda_run_None_Suc: "\<exists>err. jda_run eig clf self Xs Ys Xt None (Suc k) = Inl err"
proof (cases "jda_run eig clf self Xs Ys Xt None (Suc k)")
  case (Inl err)
  then show ?thesis by blast
next
  case (Inr st)
  from jda_run_Inr [OF Inr] obtain X where X: "pooled Xs Xt = Inr X" "shape0 Xs \<noteq> 0" "shape0 Xt \<noteq> 0"
    by blast
  let ?body = "jda_round eig clf self X Ys None (shape0 X) (shape1 X) (shape0 Xs) (shape0 Xt)
                 (length (remdups Ys)) (centering (shape1 X))"
  from Inr [unfolded jda_run_loop [OF X] jda_loop_Suc_end]
  obtain stk where "?body stk = Inr st"
    by (auto split: sum.splits)
  with jda_round_None [of eig clf self X Ys "shape0 X" "shape1 X" "shape0 Xs" "shape0 Xt"
      "length (remdups Ys)" "centering (shape1 X)" stk]
  show ?thesis by simp
qed

lemma jda_fit_predict_None: "\<exists>err. jda_fit_predict eig clf self Xs Ys Xt None = Inl err"
proof (cases "nat (T self)")
  case 0
  then show ?thesis
    using jda_run_0 [of eig clf self Xs Ys Xt None]
    by (auto simp: jda_fit_predict_def split: sum.splits option.splits)
next
  case (Suc k)
  with jda_run_None_Suc [of eig clf self Xs Ys Xt k] show ?thesis
    by (auto simp: jda_fit_predict_def)
qed

lemma jda_fit_predict_None_TypeError:
  assumes "jda_fit_predict eig clf self Xs Ys Xt Yt = Inr r"
  shows "jda_fit_predict eig clf self Xs Ys Xt None = Inl TypeError"
proof -
  obtain a Yp accs where r: "r = (a, Yp, accs)" by (cases r) auto
  from jda_fit_predict_Inr [OF assms [unfolded r]] obtain st where
    st: "jda_run eig clf self Xs Ys Xt Yt (nat (T self)) = Inr st" and pos: "0 < nat (T self)"
    by blast
  from jda_run_Inr [OF st] obtain X where X: "pooled Xs Xt = Inr X" "shape0 Xs \<noteq> 0" "shape0 Xt \<noteq> 0"
    by blast
  obtain k where k: "nat (T self) = Suc k" using pos by (cases "nat (T self)") auto
  let ?st0 = "\<lparr>e = marginal_vector (shape0 Xs) (shape0 Xt), Y_tar_pseudo = None, acc = None,
        list_acc = []\<rparr>"
  from st [unfolded jda_run_loop [OF X] k] obtain st1 where
    "jda_round eig clf self X Ys Yt (shape0 X) (shape1 X) (shape0 Xs) (shape0 Xt)
                 (length (remdups Ys)) (centering (shape1 X)) ?st0 = Inr st1"
    by (auto split: sum.splits)
  from jda_round_Yt [OF this] show ?thesis
    by (simp add: jda_fit_predict_def jda_run_loop [OF X] k)
qed

lemma tca_fit_predict_None: "\<exists>err. tca_fit_predict eig clf self Xs Ys Xt None = Inl err"
  by (auto simp: tca_fit_predict_def split: sum.splits prod.splits)

lemma tca_fit_predict_None_TypeError:
  assumes "tca_fit_predict eig clf self Xs Ys Xt Yt = Inr r"
  shows "tca_fit_predict eig clf self Xs Ys Xt None = Inl TypeError"
  using assms by (auto simp: tca_fit_predict_def split: sum.splits prod.splits)

lemma kernel_recognised:
  assumes "kt \<in> {Some ''primal'', Some ''linear'', Some ''rbf''}"
  shows "\<exists>K. kernel kt X None g = Inr (Some K) \<and>
           shape0 K = (if kt = Some ''primal'' then shape0 X else shape1 X)"
  using assms by (auto simp: kernel_def linear_kernel_def rbf_kernel_def Let_def)

lemma jda_project_ok:
  assumes "kernel_type self \<in> {Some ''primal'', Some ''linear'', Some ''rbf''}"
    and "m = shape0 X" and "n = shape1 X"
    and "\<forall>a b. \<exists>w V. eig a b = Inr (w, V) \<and> shape0 V = shape0 a \<and> shape1 V = length w"
  shows "\<exists>Xs_new Xt_new. jda_project eig self X M H m n ns = Inr (Xs_new, Xt_new)"
proof -
  from kernel_recognised [OF assms(1), of X "gamma self"] obtain K where
    K: "kernel (kernel_type self) X None (gamma self) = Inr (Some K)"
       "shape0 K = (if kernel_type self = Some ''primal'' then m else n)"
    using assms(2,3) by auto
  let ?n_eye = "if kernel_type self = Some ''primal'' then m else n"
  let ?a = "bc (+) (multi_dot K M (transposed K)) (bc (*) (scalar (lamb self)) (eye ?n_eye))"
  let ?b = "multi_dot K H (transposed K)"
  have ok: "bc_ok (multi_dot K M (transposed K)) (bc (*) (scalar (lamb self)) (eye ?n_eye))"
    using K(2) by (simp add: bc_ok_def)
  from assms(4) obtain w V where
    wV: "eig ?a ?b = Inr (w, V)" "shape0 V = shape0 ?a" "shape1 V = length w"
    by blast
  have sV: "shape0 V = shape0 K"
    using wV(2) K(2) by (simp add: bdim_def)
  from basis_selection_total [OF wV(3), of "dim self"] obtain A where
    A: "take_cols V (slice_to (argsort w) (dim self)) = Inr A" "shape0 A = shape0 V"
    by blast
  show ?thesis
    unfolding jda_project_def
    using K(1) ok wV(1) A sV by (simp add: Let_def)
qed


lemma conditional_term_ok:
  assumes "length Ys \<le> n" and "ns + nt \<le> n" and "{1..int C} \<subseteq> set Ys"
    and "Yp_opt = None \<or> (\<exists>yp. Yp_opt = Some yp \<and> length yp = nt \<and> {1..int C} \<subseteq> set yp)"
  shows "\<exists>e_new N. conditional_term n ns nt C Ys Yp_opt e_cur = Inr (e_new, N)"
proof (cases Yp_opt)
  case None
  then show ?thesis by (simp add: conditional_term_def)
next
  case (Some yp)
  with assms(4) have yp: "length yp = nt" "{1..int C} \<subseteq> set yp" by auto
  have "set [1..int C] \<subseteq> set Ys \<inter> set yp"
    using assms(3) yp(2) by simp
  from class_loop_ok [OF assms(1) _ this, of ns e_cur "scalar 0"] assms(2) yp(1) Some
  show ?thesis by (auto simp: conditional_term_def)
qed

lemma jda_round_ok:
  assumes "kernel_type self \<in> {Some ''primal'', Some ''linear'', Some ''rbf''}"
    and "m = shape0 X" and "n = shape1 X"
    and "\<forall>a b. \<exists>w V. eig a b = Inr (w, V) \<and> shape0 V = shape0 a \<and> shape1 V = length w"
    and "\<forall>A Y B. \<exists>yp. clf A Y B = Inr yp \<and> length yp = nt \<and> {1..int C} \<subseteq> set yp"
    and "length yt = nt"
    and "length Ys \<le> n" and "ns + nt \<le> n" and "{1..int C} \<subseteq> set Ys"
    and "Y_tar_pseudo st = None \<or>
         (\<exists>yp. Y_tar_pseudo st = Some yp \<and> length yp = nt \<and> {1..int C} \<subseteq> set yp)"
  shows "\<exists>st'. jda_round eig clf self X Ys (Some yt) m n ns nt C H st = Inr st' \<and>
           (\<exists>yp. Y_tar_pseudo st' = Some yp \<and> length yp = nt \<and> {1..int C} \<subseteq> set yp)"
proof -
  from conditional_term_ok [OF assms(7,8,9,10), of "e st"] obtain e_new N where
    ct: "conditional_term n ns nt C Ys (Y_tar_pseudo st) (e st) = Inr (e_new, N)"
    by blast
  from jda_project_ok [OF assms(1,2,3,4), of "jda_M C (e st) N" H ns] obtain Xs_new Xt_new where
    pr: "jda_project eig self X (jda_M C (e st) N) H m n ns = Inr (Xs_new, Xt_new)"
    by blast
  from assms(5) obtain yp where
    yp: "clf Xs_new Ys Xt_new = Inr yp" "length yp = nt" "{1..int C} \<subseteq> set yp"
    by blast
  from accuracy_score_Some [of yt yp] assms(6) yp(2) obtain a where
    a: "accuracy_score (Some yt) yp = Inr a"
    by auto
  show ?thesis
    unfolding jda_round_def using ct pr yp a by (simp add: Let_def)
qed

lemma jda_loop_ok:
  assumes "kernel_type self \<in> {Some ''primal'', Some ''linear'', Some ''rbf''}"
    and "m = shape0 X" and "n = shape1 X"
    and "\<forall>a b. \<exists>w V. eig a b = Inr (w, V) \<and> shape0 V = shape0 a \<and> shape1 V = length w"
    and "\<forall>A Y B. \<exists>yp. clf A Y B = Inr yp \<and> length yp = nt \<and> {1..int C} \<subseteq> set yp"
    and "length yt = nt"
    and "length Ys \<le> n" and "ns + nt \<le> n" and "{1..int C} \<subseteq> set Ys"
    and "Y_tar_pseudo st = None \<or>
         (\<exists>yp. Y_tar_pseudo st = Some yp \<and> length yp = nt \<and> {1..int C} \<subseteq> set yp)"
  shows "\<exists>st'. jda_loop (jda_round eig clf self X Ys (Some yt) m n ns nt C H) k st = Inr st'"
  using assms(10)
proof (induction k arbitrary: st)
  case 0
  show ?case by simp
next
  case (Suc k)
  from jda_round_ok [OF assms(1-9) Suc.prems, of H] obtain st1 where
    st1: "jda_round eig clf self X Ys (Some yt) m n ns nt C H st = Inr st1"
      "\<exists>yp. Y_tar_pseudo st1 = Some yp \<and> length yp = nt \<and> {1..int C} \<subseteq> set yp"
    by blast
  from Suc.IH [of st1] st1(2) obtain st' where
    "jda_loop (jda_round eig clf self X Ys (Some yt) m n ns nt C H) k st1 = Inr st'"
    by blast
  with st1(1) show ?case by simp
qed

lemma jda_fit_predict_history:
  assumes "jda_fit_predict eig clf jda Xs Ys Xt Yt = Inr (a, Yp, accs)"
  shows "1 \<le> T jda \<and> length accs = nat (T jda) \<and> last accs = a \<and> (\<exists>yp. Yp = Some yp) \<and>
         (\<forall>k\<le>nat (T jda). \<exists>st. jda_run eig clf jda Xs Ys Xt Yt k = Inr st \<and>
              list_acc st = take k accs) \<and>
         (\<exists>st. jda_run eig clf jda Xs Ys Xt Yt (nat (T jda)) = Inr st \<and>
              Y_tar_pseudo st = Yp \<and> acc st = Some a \<and> list_acc st = accs)"
proof -
  from jda_fit_predict_Inr [OF assms] obtain st where
    st: "jda_run eig clf jda Xs Ys Xt Yt (nat (T jda)) = Inr st" "acc st = Some a"
      "Y_tar_pseudo st = Yp" "list_acc st = accs" and pos: "0 < nat (T jda)"
    by blast
  from jda_run_Inr [OF st(1)] obtain X where
    X: "pooled Xs Xt = Inr X" "shape0 Xs \<noteq> 0" "shape0 Xt \<noteq> 0"
    by blast
  note loop = st(1) [unfolded jda_run_loop [OF X]]
  from jda_loop_history [OF loop] pos st(2,3,4) have
    h: "length accs = nat (T jda)" "Some a = Some (last accs)" "\<exists>yp. Yp = Some yp"
    by auto
  have pre: "\<exists>stk. jda_run eig clf jda Xs Ys Xt Yt k = Inr stk \<and> list_acc stk = take k accs"
    if "k \<le> nat (T jda)" for k
    using jda_loop_prefix [OF loop that] st(4) by (simp add: jda_run_loop [OF X])
  from pos have "1 \<le> T jda" by simp
  with h pre st show ?thesis by auto
qed

lemma jda_round_first_ok:
  assumes "kernel_type self \<in> {Some ''primal'', Some ''linear'', Some ''rbf''}"
    and "m = shape0 X" and "n = shape1 X"
    and "\<forall>a b. \<exists>w V. eig a b = Inr (w, V) \<and> shape0 V = shape0 a \<and> shape1 V = length w"
    and "\<forall>A Y B. \<exists>yp. clf A Y B = Inr yp \<and> length yp = nt"
    and "length yt = nt"
    and "Y_tar_pseudo st = None"
  shows "\<exists>st'. jda_round eig clf self X Ys (Some yt) m n ns nt C H st = Inr st'"
proof -
  have ct: "conditional_term n ns nt C Ys (Y_tar_pseudo st) (e st) = Inr (e st, scalar 0)"
    using assms(7) by (simp add: conditional_term_def)
  from jda_project_ok [OF assms(1,2,3,4), of "jda_M C (e st) (scalar 0)" H ns]
  obtain Xs_new Xt_new where
    pr: "jda_project eig self X (jda_M C (e st) (scalar 0)) H m n ns = Inr (Xs_new, Xt_new)"
    by blast
  from assms(5) obtain yp where yp: "clf Xs_new Ys Xt_new = Inr yp" "length yp = nt"
    by blast
  from accuracy_score_Some [of yt yp] assms(6) yp(2) obtain a where
    a: "accuracy_score (Some yt) yp = Inr a"
    by auto
  show ?thesis
    unfolding jda_round_def using ct pr yp a by (simp add: Let_def)
qed

lemma jda_run_total:
  assumes "shape1 Xs = shape1 Xt" and "0 < shape0 Xs" and "0 < shape0 Xt"
    and "length Ys = shape0 Xs" and "set Ys = {1..int (length (remdups Ys))}"
    and "length yt = shape0 Xt"
    and "kernel_type self \<in> {Some ''primal'', Some ''linear'', Some ''rbf''}"
    and "\<forall>a b. \<exists>w V. eig a b = Inr (w, V) \<and> shape0 V = shape0 a \<and> shape1 V = length w"
    and "\<forall>A Y B. \<exists>yp. clf A Y B = Inr yp \<and> length yp = shape0 Xt \<and>
           (1 < k \<longrightarrow> set Ys \<subseteq> set yp)"
  shows "\<exists>st. jda_run eig clf self Xs Ys Xt (Some yt) k = Inr st"
proof -
  from pooled_ok [OF assms(1)] obtain X where X: "pooled Xs Xt = Inr X" by blast
  have ne: "shape0 Xs \<noteq> 0" "shape0 Xt \<noteq> 0" using assms(2,3) by simp_all
  have n: "shape1 X = shape0 Xs + shape0 Xt" using pooled_Inr [OF X] by simp
  let ?C = "length (remdups Ys)"
  let ?st0 = "\<lparr>e = marginal_vector (shape0 Xs) (shape0 Xt), Y_tar_pseudo = None, acc = None,
        list_acc = []\<rparr>"
  let ?body = "jda_round eig clf self X Ys (Some yt) (shape0 X) (shape1 X) (shape0 Xs)
      (shape0 Xt) ?C (centering (shape1 X))"
  have "\<exists>st. jda_loop ?body k ?st0 = Inr st"
  proof (cases "1 < k")
    case True
    with assms(9) assms(5) have clf':
      "\<forall>A Y B. \<exists>yp. clf A Y B = Inr yp \<and> length yp = shape0 Xt \<and> {1..int ?C} \<subseteq> set yp"
      by simp
    show ?thesis
      by (rule jda_loop_ok [OF assms(7) refl refl assms(8) clf' assms(6)])
        (use assms(4,5) n in simp_all)
  next
    case False
    then consider "k = 0" | "k = Suc 0" by linarith
    then show ?thesis
    proof cases
      case 1
      then show ?thesis by simp
    next
      case 2
      from assms(9) have clf': "\<forall>A Y B. \<exists>yp. clf A Y B = Inr yp \<and> length yp = shape0 Xt"
        by blast
      have "\<exists>st'. ?body ?st0 = Inr st'"
        by (rule jda_round_first_ok [OF assms(7) refl refl assms(8) clf' assms(6)]) simp
      then show ?thesis by (auto simp: 2)
    qed
  qed
  then show ?thesis
    by (simp add: jda_run_loop [OF X ne])
qed

lemma jda_run_last_round:
  assumes "jda_run eig clf self Xs Ys Xt Yt (Suc k) = Inr st"
  shows "\<exists>stk N Xs_new Xt_new yp a.
           jda_run eig clf self Xs Ys Xt Yt k = Inr stk \<and>
           conditional_term (shape0 Xs + shape0 Xt) (shape0 Xs) (shape0 Xt)
             (length (remdups Ys)) Ys (Y_tar_pseudo stk) (e stk) = Inr (e st, N) \<and>
           clf Xs_new Ys Xt_new = Inr yp \<and> accuracy_score Yt yp = Inr a \<and>
           Y_tar_pseudo st = Some yp \<and> acc st = Some a"
proof -
  from jda_run_Inr [OF assms] obtain X where
    X: "pooled Xs Xt = Inr X" "shape0 Xs \<noteq> 0" "shape0 Xt \<noteq> 0"
    by blast
  have n: "shape1 X = shape0 Xs + shape0 Xt" using pooled_Inr [OF X(1)] by simp
  let ?body = "jda_round eig clf self X Ys Yt (shape0 X) (shape1 X) (shape0 Xs)
      (shape0 Xt) (length (remdups Ys)) (centering (shape1 X))"
  from assms [unfolded jda_run_loop [OF X] jda_loop_Suc_end] obtain stk where
    stk: "jda_run eig clf self Xs Ys Xt Yt k = Inr stk" "?body stk = Inr st"
    by (auto simp: jda_run_loop [OF X] split: sum.splits)
  from jda_round_Inr [OF stk(2)] obtain e_new N Xs_new Xt_new yp a where
    r: "conditional_term (shape1 X) (shape0 Xs) (shape0 Xt) (length (remdups Ys)) Ys
          (Y_tar_pseudo stk) (e stk) = Inr (e_new, N)"
       "clf Xs_new Ys Xt_new = Inr yp" "accuracy_score Yt yp = Inr a"
       "st = \<lparr>e = e_new, Y_tar_pseudo = Some yp, acc = Some a, list_acc = list_acc stk @ [a]\<rparr>"
    by blast
  show ?thesis
    using stk(1) r n
    by (intro exI [of _ stk] exI [of _ N] exI [of _ Xs_new] exI [of _ Xt_new] exI [of _ yp]
        exI [of _ a]) simp
qed

lemma jda_run_pseudo_length:
  assumes "jda_run eig clf self Xs Ys Xt (Some yt) (Suc k) = Inr st"
  shows "\<exists>yp. Y_tar_pseudo st = Some yp \<and> length yp = length yt"
  using jda_run_last_round [OF assms] by (auto dest: accuracy_score_Inr)

lemma e_after_second_round:
  assumes "jda_run eig clf self Xs Ys Xt (Some yt) (Suc (Suc k)) = Inr st"
    and "length Ys \<le> shape0 Xs + shape0 Xt" and "length yt = shape0 Xt" and "Ys \<noteq> []"
  shows "\<exists>stk yp. jda_run eig clf self Xs Ys Xt (Some yt) (Suc k) = Inr stk \<and>
           Y_tar_pseudo stk = Some yp \<and>
           e st = class_vector_of (shape0 Xs + shape0 Xt) (shape0 Xs) Ys yp
                    (int (length (remdups Ys)))"
proof -
  let ?n = "shape0 Xs + shape0 Xt" and ?C = "length (remdups Ys)"
  from jda_run_last_round [OF assms(1)] obtain stk N where
    stk: "jda_run eig clf self Xs Ys Xt (Some yt) (Suc k) = Inr stk"
      "conditional_term ?n (shape0 Xs) (shape0 Xt) ?C Ys (Y_tar_pseudo stk) (e stk) = Inr (e st, N)"
    by blast
  from jda_run_pseudo_length [OF stk(1)] assms(3) obtain yp where
    yp: "Y_tar_pseudo stk = Some yp" "length yp = shape0 Xt"
    by auto
  from stk(2) yp have cl:
    "class_loop ?n (shape0 Xs) Ys yp [1..int ?C] (e stk, scalar 0) = Inr (e st, N)"
    by (simp add: conditional_term_def)
  have C: "0 < ?C" using assms(4) by simp
  then have ne: "[1..int ?C] \<noteq> []" by (simp add: upto_rec1)
  from class_loop_Inr [OF assms(2) _ cl] yp(2) ne last_upto_1 [OF C]
  have "e st = class_vector_of ?n (shape0 Xs) Ys yp (int ?C)"
    by simp
  with stk(1) yp(1) show ?thesis by blast
qed

lemma jda_run_degenerate:
  assumes "jda_run eig clf self Xs Ys Xt (Some yt) (Suc k) = Inr st"
    and "Y_tar_pseudo st = Some yp"
    and "length Ys \<le> shape0 Xs + shape0 Xt" and "length yt = shape0 Xt"
    and "c \<in> {1..int (length (remdups Ys))}" and "c \<notin> set Ys \<or> c \<notin> set yp"
  shows "jda_run eig clf self Xs Ys Xt (Some yt) (Suc (Suc k) + j) = Inl ZeroDivisionError"
proof -
  from jda_run_Inr [OF assms(1)] obtain X where
    X: "pooled Xs Xt = Inr X" "shape0 Xs \<noteq> 0" "shape0 Xt \<noteq> 0"
    by blast
  have n: "shape1 X = shape0 Xs + shape0 Xt" using pooled_Inr [OF X(1)] by simp
  let ?body = "jda_round eig clf self X Ys (Some yt) (shape0 X) (shape1 X) (shape0 Xs)
      (shape0 Xt) (length (remdups Ys)) (centering (shape1 X))"
  let ?st0 = "\<lparr>e = marginal_vector (shape0 Xs) (shape0 Xt), Y_tar_pseudo = None, acc = None,
        list_acc = []\<rparr>"
  from jda_run_pseudo_length [OF assms(1)] assms(2,4) have len: "length yp = shape0 Xt"
    by simp
  have "conditional_term (shape1 X) (shape0 Xs) (shape0 Xt) (length (remdups Ys)) Ys
      (Y_tar_pseudo st) (e st) = Inl ZeroDivisionError"
    unfolding assms(2)
    by (rule conditional_term_zero [OF _ _ len assms(5,6)]) (use assms(3) n in simp_all)
  then have b: "?body st = Inl ZeroDivisionError"
    by (rule jda_round_conditional_Inl)
  have "jda_loop ?body (Suc k + (1 + j)) ?st0 = Inl ZeroDivisionError"
    unfolding jda_loop_add [of ?body "Suc k" "1 + j"]
    using assms(1) [unfolded jda_run_loop [OF X]] b by simp
  then show ?thesis
    by (simp add: jda_run_loop [OF X])
qed

subsection \<open>Fixed answers\<close>

lemma eig_units_ok:
  "\<forall>a b. \<exists>w V. eig_units a b = Inr (w, V) \<and> shape0 V = shape0 a \<and> shape1 V = length w"
  by (simp add: eig_units_def)

lemma clf_returning_eq: "clf_returning ys A Y B = Inr yp \<longleftrightarrow> yp = ys"
  by (auto simp: clf_returning_def)

lemma set_upto_2: "{1..2::int} = {1, 2}"
  by auto

lemmas run_eval = jda_fit_predict_def jda_run_def jda_round_def conditional_term_def
  class_vector_def where_eq_def jda_M_def jda_M1_def jda_M0_def jda_project_def kernel_def
  tca_fit_predict_def tca_fit_def tca_project_def TCA_kernel_def tca_M_def tca_M1_def
  pooled_def frob_normalise_def marginal_vector_def centering_def argsort_def
  accuracy_score_def eig_returning_def clf_returning_def linear_kernel_def rbf_kernel_def

section \<open>The alignment matrix has unit Frobenius norm\<close>





section \<open>One round of JDA and TCA in exact arithmetic\<close>

lemma jda_M1_first:
  "jda_M1 C (mk n (Suc 0) q) (scalar 0) = mk n n (\<lambda>i j. q i 0 * q j 0 * real C)"
  unfolding jda_M1_def jda_M0_def outer_column bc_scalar
  by (simp, rule mk_cong) simp

lemma jda_M_first:
  assumes "0 < C"
  shows "jda_M C (marginal_vector ns nt) (scalar 0) = tca_M ns nt"
  using assms
  by (simp add: jda_M_def tca_M_def tca_M1_def Let_def marginal_vector_eq jda_M1_first
      outer_column frob_normalise_scale)

lemma kernel_None: "kernel ker X None g = TCA_kernel ker X None g"
  by (simp add: kernel_def TCA_kernel_def)

lemma jda_project_eq:
  assumes "kernel_type jda = kernel_type tca" "dim jda = dim tca" "lamb jda = lamb tca"
    "gamma jda = gamma tca"
  shows "jda_project eig jda X M H m n ns = tca_project eig tca X M H m n ns"
  unfolding jda_project_def tca_project_def kernel_None assms by (rule refl)

text \<open>
  With \<^verbatim>\<open>T = 1\<close> the only iteration of \<^verbatim>\<open>JDA.fit_predict\<close> has no pseudo-labels, so
  \<open>N\<close> is the number 0 and \<open>M = C * e * e.T\<close> divided by its Frobenius norm. Over the
  real numbers the positive class count \<open>C\<close> cancels in the division and the matrix is
  the one \<^verbatim>\<open>TCA.fit\<close> builds; with the same kernel type, \<open>dim\<close>, \<open>lamb\<close> and \<open>gamma\<close>,
  the same eigensolver and the same classifier, the JDA call then returns what the TCA
  call returns.

  This is a fact of exact arithmetic only. The arrays of the program hold IEEE doubles:
  \<open>C * e * e.T\<close> and its norm are each rounded, the two quotients need not agree in the
  last bit, and what \<^verbatim>\<open>scipy.linalg.eig\<close> answers for two matrices that differ in the
  last bit (the order and the signs of the eigenvectors) is not a function of this
  development. Whether the projected features of the two calls agree within a
  floating-point tolerance (C1) is a statement about those roundings; it is not stated
  here, and the lemma does not decide it.
\<close>

lemma jda_single_round_exact:
  assumes "T jda = 1"
    and "kernel_type jda = kernel_type tca" and "dim jda = dim tca"
    and "lamb jda = lamb tca" and "gamma jda = gamma tca"
    and "Ys \<noteq> []"
  shows "jda_M (length (remdups Ys)) (marginal_vector ns nt) (scalar 0) = tca_M ns nt \<and>
         jda_fit_predict eig clf jda Xs Ys Xt Yt =
           map_sum id (\<lambda>(a, y). (a, Some y, [a])) (tca_fit_predict eig clf tca Xs Ys Xt Yt)"
proof -
  have C: "0 < length (remdups Ys)"
    using assms(6) by simp
  have "jda_fit_predict eig clf jda Xs Ys Xt Yt =
      map_sum id (\<lambda>(a, y). (a, Some y, [a])) (tca_fit_predict eig clf tca Xs Ys Xt Yt)"
    unfolding jda_fit_predict_def jda_run_def tca_fit_predict_def tca_fit_def
    using C
    by (simp add: assms(1) jda_round_def conditional_term_def jda_M_first Let_def
        jda_project_eq [OF assms(2-5)] split: sum.splits prod.splits)
  with C show ?thesis
    by (simp add: jda_M_first)
qed

section \<open>The requested dimension is never rejected\<close>

text \<open>
  C6, as the code has it. Neither notebook checks \<open>dim\<close>: the basis is
  \<^verbatim>\<open>V[:, ind[:self.dim]]\<close>, and a Python slice takes what there is. Two eigenpairs and
  \<open>dim = 3\<close> give a basis of two eigenvectors and \<^verbatim>\<open>TCA.fit\<close> returns; \<open>dim = 0\<close>
  gives an empty basis and \<^verbatim>\<open>TCA.fit\<close> returns features with no column.
\<close>

theorem dim_not_rejected_counterexample:
  "tca_fit (eig_returning [1, 2] (eye 2))
      \<lparr>kernel_type = Some ''primal'', dim = 3, lamb = 1, gamma = 1\<rparr>
      \<lparr>shape0 = 1, shape1 = 2, dat = [[1, 0]]\<rparr>
      \<lparr>shape0 = 1, shape1 = 2, dat = [[0, 1]]\<rparr>
    = Inr (\<lparr>shape0 = 1, shape1 = 2, dat = [[1, 0]]\<rparr>,
           \<lparr>shape0 = 1, shape1 = 2, dat = [[0, 1]]\<rparr>) \<and>
   tca_fit (eig_returning [1, 2] (eye 2))
      \<lparr>kernel_type = Some ''primal'', dim = 0, lamb = 1, gamma = 1\<rparr>
      \<lparr>shape0 = 1, shape1 = 2, dat = [[1, 0]]\<rparr>
      \<lparr>shape0 = 1, shape1 = 2, dat = [[0, 1]]\<rparr>
    = Inr (\<lparr>shape0 = 1, shape1 = 0, dat = [[]]\<rparr>,
           \<lparr>shape0 = 1, shape1 = 0, dat = [[]]\<rparr>)"
  by (simp add: tca_fit_def pooled_def tca_project_def TCA_kernel_def tca_M_def tca_M1_def
      frob_normalise_def marginal_vector_def centering_def argsort_def eig_returning_def
      array_eval eval_nat_numeral)

text \<open>
  C6, amended. For each of the three kernels (\<^verbatim>\<open>'primal'\<close>, \<^verbatim>\<open>'linear'\<close>, \<^verbatim>\<open>'rbf'\<close>),
  with \<open>m, n = X.shape\<close> and \<open>K\<close> the kernel matrix (as many rows as \<open>X\<close> has for the
  primal kernel, as many as there are pooled samples for the other two): when the
  eigensolver answers the problem of the iteration with \<open>length w\<close> eigenpairs (and
  eigenvectors of the size of the problem), the projector of \<^verbatim>\<open>TCA.fit\<close> and the one of
  \<^verbatim>\<open>JDA.fit_predict\<close> return for every integer \<open>dim\<close>, and the new features have
  \<open>min dim (length w)\<close> columns when \<open>0 \<le> dim\<close> (all but the last \<open>- dim\<close> eigenvectors
  when \<open>dim\<close> is negative): exactly \<open>dim\<close> when \<open>dim\<close> is the number of eigenpairs,
  fewer than \<open>dim\<close> when it exceeds them, none when it is 0.
\<close>

theorem projector_accepts_every_dim:
  assumes "kernel_type self \<in> {Some ''primal'', Some ''linear'', Some ''rbf''}"
    and "m = shape0 X" and "n = shape1 X"
    and "kernel (kernel_type self) X None (gamma self) = Inr (Some K)"
    and "eig (bc (+) (multi_dot K M (transposed K))
                (bc (*) (scalar (lamb self))
                   (eye (if kernel_type self = Some ''primal'' then m else n))))
             (multi_dot K H (transposed K)) = Inr (w, V)"
    and "shape0 V = shape0 K" and "shape1 V = length w"
    and "k = (if 0 \<le> dim self then min (nat (dim self)) (length w)
              else length w - nat (- dim self))"
  shows "shape0 K = (if kernel_type self = Some ''primal'' then shape0 X else shape1 X) \<and>
         (\<exists>Xs_new Xt_new. tca_project eig self X M H m n ns = Inr (Xs_new, Xt_new) \<and>
            shape1 Xs_new = k \<and> shape1 Xt_new = k) \<and>
         (\<exists>Xs_new Xt_new. jda_project eig self X M H m n ns = Inr (Xs_new, Xt_new) \<and>
            shape1 Xs_new = k \<and> shape1 Xt_new = k)"
proof -
  from kernel_recognised [OF assms(1), of X "gamma self"] assms(4)
  have sK: "shape0 K = (if kernel_type self = Some ''primal'' then shape0 X else shape1 X)"
    by auto
  obtain A where A: "take_cols V (slice_to (argsort w) (dim self)) = Inr A"
    "shape0 A = shape0 V" "shape1 A = k"
    using basis_selection_total [OF assms(7)] assms(8) by blast
  have ok: "bc_ok (multi_dot K M (transposed K))
      (bc (*) (scalar (lamb self)) (eye (if kernel_type self = Some ''primal'' then m else n)))"
    using sK assms(2,3) by (simp add: bc_ok_def)
  have "\<exists>Xs_new Xt_new. jda_project eig self X M H m n ns = Inr (Xs_new, Xt_new) \<and>
      shape1 Xs_new = k \<and> shape1 Xt_new = k"
    unfolding jda_project_def
    using assms(4,5,6) ok A by (simp add: Let_def)
  with sK show ?thesis
    by (simp add: jda_project_eq [of self self, symmetric])
qed


theorem projector_accepts_every_dim_witness:
  "(\<exists>Xs_new Xt_new.
      tca_project (eig_returning [1, 2] (eye 2))
        \<lparr>kernel_type = Some ''linear'', dim = 3, lamb = 1, gamma = 1\<rparr>
        \<lparr>shape0 = 1, shape1 = 2, dat = [[1, 0]]\<rparr> (tca_M 1 1) (centering 2) 1 2 1
        = Inr (Xs_new, Xt_new) \<and>
      shape1 Xs_new = 2 \<and> shape1 Xt_new = 2) \<and>
   (\<exists>Xs_new Xt_new.
      jda_project (eig_returning [1, 2] (eye 2))
        \<lparr>kernel_type = Some ''linear'', dim = 3, lamb = 1, gamma = 1\<rparr>
        \<lparr>shape0 = 1, shape1 = 2, dat = [[1, 0]]\<rparr> (tca_M 1 1) (centering 2) 1 2 1
        = Inr (Xs_new, Xt_new) \<and>
      shape1 Xs_new = 2 \<and> shape1 Xt_new = 2) \<and>
   (\<exists>Xs_new Xt_new.
      tca_project (eig_returning [1, 2] (eye 2))
        \<lparr>kernel_type = Some ''rbf'', dim = 0, lamb = 1, gamma = 1\<rparr>
        \<lparr>shape0 = 1, shape1 = 2, dat = [[1, 0]]\<rparr> (tca_M 1 1) (centering 2) 1 2 1
        = Inr (Xs_new, Xt_new) \<and>
      shape1 Xs_new = 0 \<and> shape1 Xt_new = 0) \<and>
   (\<exists>Xs_new Xt_new.
      jda_project (eig_returning [1, 2] (eye 2))
        \<lparr>kernel_type = Some ''rbf'', dim = 2, lamb = 1, gamma = 1\<rparr>
        \<lparr>shape0 = 1, shape1 = 2, dat = [[1, 0]]\<rparr> (tca_M 1 1) (centering 2) 1 2 1
        = Inr (Xs_new, Xt_new) \<and>
      shape1 Xs_new = 2 \<and> shape1 Xt_new = 2)"
proof -
  let ?X = "\<lparr>shape0 = 1, shape1 = 2, dat = [[1, 0]]\<rparr>"
  let ?eig = "eig_returning [1, 2] (eye 2)"
  let ?lin = "\<lparr>kernel_type = Some ''linear'', dim = 3, lamb = 1, gamma = 1\<rparr>"
  let ?rbf0 = "\<lparr>kernel_type = Some ''rbf'', dim = 0, lamb = 1, gamma = 1\<rparr>"
  let ?rbf2 = "\<lparr>kernel_type = Some ''rbf'', dim = 2, lamb = 1, gamma = 1\<rparr>"
  have a: "(\<exists>Xs_new Xt_new. tca_project ?eig ?lin ?X (tca_M 1 1) (centering 2) 1 2 1
               = Inr (Xs_new, Xt_new) \<and> shape1 Xs_new = 2 \<and> shape1 Xt_new = 2) \<and>
           (\<exists>Xs_new Xt_new. jda_project ?eig ?lin ?X (tca_M 1 1) (centering 2) 1 2 1
               = Inr (Xs_new, Xt_new) \<and> shape1 Xs_new = 2 \<and> shape1 Xt_new = 2)"
    by (rule projector_accepts_every_dim [where w = "[1, 2]" and V = "eye 2"
          and K = "linear_kernel (transposed ?X) None", THEN conjunct2])
      (simp_all add: kernel_def eig_returning_def linear_kernel_def)
  have b: "(\<exists>Xs_new Xt_new. tca_project ?eig ?rbf0 ?X (tca_M 1 1) (centering 2) 1 2 1
               = Inr (Xs_new, Xt_new) \<and> shape1 Xs_new = 0 \<and> shape1 Xt_new = 0) \<and>
           (\<exists>Xs_new Xt_new. jda_project ?eig ?rbf0 ?X (tca_M 1 1) (centering 2) 1 2 1
               = Inr (Xs_new, Xt_new) \<and> shape1 Xs_new = 0 \<and> shape1 Xt_new = 0)"
    by (rule projector_accepts_every_dim [where w = "[1, 2]" and V = "eye 2"
          and K = "rbf_kernel (transposed ?X) None 1", THEN conjunct2])
      (simp_all add: kernel_def eig_returning_def rbf_kernel_def Let_def)
  have c: "(\<exists>Xs_new Xt_new. tca_project ?eig ?rbf2 ?X (tca_M 1 1) (centering 2) 1 2 1
               = Inr (Xs_new, Xt_new) \<and> shape1 Xs_new = 2 \<and> shape1 Xt_new = 2) \<and>
           (\<exists>Xs_new Xt_new. jda_project ?eig ?rbf2 ?X (tca_M 1 1) (centering 2) 1 2 1
               = Inr (Xs_new, Xt_new) \<and> shape1 Xs_new = 2 \<and> shape1 Xt_new = 2)"
    by (rule projector_accepts_every_dim [where w = "[1, 2]" and V = "eye 2"
          and K = "rbf_kernel (transposed ?X) None 1", THEN conjunct2])
      (simp_all add: kernel_def eig_returning_def rbf_kernel_def Let_def)
  from a b [THEN conjunct1] c [THEN conjunct2] show ?thesis
    by (intro conjI) (erule conjunct1, erule conjunct2, assumption+)
qed

section \<open>An unrecognised kernel type\<close>

text \<open>
  C7, as the code has it. \<^verbatim>\<open>kernel\<close> has no \<^verbatim>\<open>else\<close> branch and raises nothing:
  for a string it does not know it returns the \<^verbatim>\<open>None\<close> that \<^verbatim>\<open>K\<close> was
  initialised with.
\<close>

theorem kernel_unrecognised_counterexample:
  "kernel (Some ''poly'') (eye 2) None 1 = Inr None"
  by (simp add: kernel_def)

text \<open>
  C7, amended. For every \<open>X1\<close>, \<open>X2\<close> and \<open>gamma\<close> and every kernel type other than
  \<^verbatim>\<open>None\<close>, the empty string, \<^verbatim>\<open>'primal'\<close>, \<^verbatim>\<open>'linear'\<close> and \<^verbatim>\<open>'rbf'\<close>, the kernel
  evaluator raises nothing and returns \<^verbatim>\<open>None\<close>; the caller fails afterwards, with
  AttributeError, where it evaluates \<^verbatim>\<open>K.T\<close>. \<^verbatim>\<open>None\<close>, the empty string and
  \<^verbatim>\<open>'primal'\<close> return \<open>X1\<close> itself. The evaluator is a function of its arguments.
\<close>

theorem kernel_unrecognised_returns_None:
  assumes "ker \<notin> {None, Some [], Some ''primal'', Some ''linear'', Some ''rbf''}"
    and "kernel_type self = ker"
  shows "kernel ker X1 X2 g = Inr None \<and>
         jda_project eig self X M H m n ns = Inl AttributeError \<and>
         kernel None X1 X2 g = Inr (Some X1) \<and>
         kernel (Some []) X1 X2 g = Inr (Some X1) \<and>
         kernel (Some ''primal'') X1 X2 g = Inr (Some X1)"
  using assms by (cases ker) (simp_all add: kernel_def jda_project_def)

theorem kernel_unrecognised_returns_None_witness:
  "kernel (Some ''poly'') (eye 2) None 1 = Inr None \<and>
   jda_project (eig_returning [1, 2] (eye 2))
     \<lparr>kernel_type = Some ''poly'', dim = 30, lamb = 1, gamma = 1\<rparr>
     (eye 2) (tca_M 1 1) (centering 2) 2 2 1 = Inl AttributeError \<and>
   kernel None (eye 2) None 1 = Inr (Some (eye 2)) \<and>
   kernel (Some []) (eye 2) None 1 = Inr (Some (eye 2)) \<and>
   kernel (Some ''primal'') (eye 2) None 1 = Inr (Some (eye 2))"
  by (rule kernel_unrecognised_returns_None [where ker = "Some ''poly''"]) simp_all

section \<open>Target labels are required\<close>

text \<open>
  C8, as the code has it. \<^verbatim>\<open>fit_predict\<close> has no default for \<^verbatim>\<open>Yt\<close> and every
  iteration ends with \<^verbatim>\<open>accuracy_score(Yt, Y_tar_pseudo)\<close>. With \<^verbatim>\<open>Yt = None\<close> the
  first iteration raises there, and no label is returned.
\<close>

theorem absent_Yt_counterexample:
  "jda_fit_predict (eig_returning [1, 2] (eye 2)) (clf_returning [1])
      \<lparr>kernel_type = Some ''primal'', dim = 30, lamb = 1, gamma = 1, T = 10\<rparr>
      \<lparr>shape0 = 1, shape1 = 2, dat = [[1, 0]]\<rparr> [1]
      \<lparr>shape0 = 1, shape1 = 2, dat = [[0, 1]]\<rparr> None
    = Inl TypeError"
  by (simp add: run_eval array_eval eval_nat_numeral)

text \<open>
  C8, amended. \<^verbatim>\<open>Yt\<close> is required. A call of \<^verbatim>\<open>fit_predict\<close> with \<^verbatim>\<open>Yt = None\<close>
  never returns, whatever \<open>T\<close> is, for JDA and for TCA; where the same call with target
  labels returns, the call without them raises TypeError (in the accuracy computation
  of the first round), so no predicted labels come back.
\<close>

theorem absent_Yt_raises:
  "(\<exists>err. jda_fit_predict eig clf jda Xs Ys Xt None = Inl err) \<and>
   ((\<exists>r. jda_fit_predict eig clf jda Xs Ys Xt (Some yt) = Inr r) \<longrightarrow>
      jda_fit_predict eig clf jda Xs Ys Xt None = Inl TypeError) \<and>
   (\<exists>err. tca_fit_predict eig clf tca Xs Ys Xt None = Inl err) \<and>
   ((\<exists>r. tca_fit_predict eig clf tca Xs Ys Xt (Some yt) = Inr r) \<longrightarrow>
      tca_fit_predict eig clf tca Xs Ys Xt None = Inl TypeError)"
  using jda_fit_predict_None [of eig clf jda Xs Ys Xt] tca_fit_predict_None [of eig clf tca Xs Ys Xt]
    jda_fit_predict_None_TypeError [of eig clf jda Xs Ys Xt "Some yt"]
    tca_fit_predict_None_TypeError [of eig clf tca Xs Ys Xt "Some yt"]
  by blast

lemma fit_predict_returns_example:
  "jda_fit_predict (eig_returning [1, 2] (eye 2)) (clf_returning [1])
      \<lparr>kernel_type = Some ''primal'', dim = 30, lamb = 1, gamma = 1, T = 1\<rparr>
      \<lparr>shape0 = 1, shape1 = 2, dat = [[1, 0]]\<rparr> [1]
      \<lparr>shape0 = 1, shape1 = 2, dat = [[0, 1]]\<rparr> (Some [1])
    = Inr (1, Some [1], [1]) \<and>
   tca_fit_predict (eig_returning [1, 2] (eye 2)) (clf_returning [1])
      \<lparr>kernel_type = Some ''primal'', dim = 30, lamb = 1, gamma = 1\<rparr>
      \<lparr>shape0 = 1, shape1 = 2, dat = [[1, 0]]\<rparr> [1]
      \<lparr>shape0 = 1, shape1 = 2, dat = [[0, 1]]\<rparr> (Some [1])
    = Inr (1, [1])"
  by (simp add: run_eval array_eval eval_nat_numeral)

theorem absent_Yt_raises_witness:
  "jda_fit_predict (eig_returning [1, 2] (eye 2)) (clf_returning [1])
      \<lparr>kernel_type = Some ''primal'', dim = 30, lamb = 1, gamma = 1, T = 1\<rparr>
      \<lparr>shape0 = 1, shape1 = 2, dat = [[1, 0]]\<rparr> [1]
      \<lparr>shape0 = 1, shape1 = 2, dat = [[0, 1]]\<rparr> None
    = Inl TypeError \<and>
   tca_fit_predict (eig_returning [1, 2] (eye 2)) (clf_returning [1])
      \<lparr>kernel_type = Some ''primal'', dim = 30, lamb = 1, gamma = 1\<rparr>
      \<lparr>shape0 = 1, shape1 = 2, dat = [[1, 0]]\<rparr> [1]
      \<lparr>shape0 = 1, shape1 = 2, dat = [[0, 1]]\<rparr> None
    = Inl TypeError"
  using absent_Yt_raises [of "eig_returning [1, 2] (eye 2)" "clf_returning [1]"
      "\<lparr>kernel_type = Some ''primal'', dim = 30, lamb = 1, gamma = 1, T = 1\<rparr>"
      "\<lparr>shape0 = 1, shape1 = 2, dat = [[1, 0]]\<rparr>" "[1]"
      "\<lparr>shape0 = 1, shape1 = 2, dat = [[0, 1]]\<rparr>" "[1]"
      "\<lparr>kernel_type = Some ''primal'', dim = 30, lamb = 1, gamma = 1\<rparr>"]
    fit_predict_returns_example
  by blast

section \<open>The source labels must be 1, ..., C\<close>

text \<open>
  C10. \<open>C\<close> is the number of distinct source labels and the loop over the classes
  runs \<open>c\<close> from 1 to \<open>C\<close>. When the distinct source labels are not exactly
  \<open>{1, ..., C}\<close>:
  \<^item> some \<open>c\<close> in \<open>1..C\<close> has no source sample;
  \<^item> the conditional term of any iteration that has pseudo-labels of length \<open>nt\<close>
    (every iteration after the first) raises ZeroDivisionError, and so does the
    iteration;
  \<^item> a call with \<open>T \<ge> 2\<close> raises ZeroDivisionError whenever its first iteration goes
    through (that is, whenever the same call with \<open>T = 1\<close> returns);
  \<^item> labels outside \<open>1..C\<close> play no part in the conditional term: it is the same for
    any two label vectors with the same positions of every class in \<open>1..C\<close>.
  The sizes are those of a call: the source labels fit in the \<open>n\<close> pooled samples and
  \<open>ns + nt \<le> n\<close>.
\<close>

theorem labels_must_be_1_to_C:
  assumes "set Ys \<noteq> {1..int C}" and "C = length (remdups Ys)"
  shows "(\<exists>c\<in>{1..int C}. length (where_eq Ys c) = 0) \<and>
         (length Ys \<le> n \<and> ns + nt \<le> n \<and> length Yp = nt \<longrightarrow>
            conditional_term n ns nt C Ys (Some Yp) e_cur = Inl ZeroDivisionError) \<and>
         (length Ys \<le> n \<and> ns + nt \<le> n \<and> Y_tar_pseudo st = Some Yp \<and> length Yp = nt \<longrightarrow>
            jda_round eig clf self X Ys Yt m n ns nt C H st = Inl ZeroDivisionError) \<and>
         (length Ys \<le> shape0 Xs + shape0 Xt \<and> length yt = shape0 Xt \<and> 2 \<le> T jda \<and>
          (\<exists>r. jda_fit_predict eig clf (jda\<lparr>T := 1\<rparr>) Xs Ys Xt (Some yt) = Inr r) \<longrightarrow>
            jda_fit_predict eig clf jda Xs Ys Xt (Some yt) = Inl ZeroDivisionError) \<and>
         (length Yp' = length Yp \<and>
          (\<forall>c\<in>{1..int C}. where_eq Ys' c = where_eq Ys c \<and> where_eq Yp' c = where_eq Yp c) \<longrightarrow>
            conditional_term n ns nt C Ys' (Some Yp') e_cur =
            conditional_term n ns nt C Ys (Some Yp) e_cur)"
proof -
  from missing_class assms obtain c where c: "c \<in> {1..int C}" "c \<notin> set Ys"
    by blast
  have p1: "\<exists>c\<in>{1..int C}. length (where_eq Ys c) = 0"
    using c by (auto simp: where_eq_empty_iff)
  have p2: "conditional_term n ns nt C Ys (Some Yp) e_cur = Inl ZeroDivisionError"
    if "length Ys \<le> n" "ns + nt \<le> n" "length Yp = nt" for n ns nt Yp e_cur
    using conditional_term_zero [OF that c(1)] c(2) by simp
  have p4: "jda_fit_predict eig clf jda Xs Ys Xt (Some yt) = Inl ZeroDivisionError"
    if len: "length Ys \<le> shape0 Xs + shape0 Xt" "length yt = shape0 Xt" and T2: "2 \<le> T jda"
      and r: "jda_fit_predict eig clf (jda\<lparr>T := 1\<rparr>) Xs Ys Xt (Some yt) = Inr r" for r
  proof -
    obtain a Yp1 accs where r': "r = (a, Yp1, accs)" by (cases r) auto
    from jda_fit_predict_Inr [OF r [unfolded r']] obtain st1 where
      st1: "jda_run eig clf (jda\<lparr>T := 1\<rparr>) Xs Ys Xt (Some yt) (Suc 0) = Inr st1"
      by auto
    from jda_run_Inr [OF st1] obtain X where X: "pooled Xs Xt = Inr X" "shape0 Xs \<noteq> 0" "shape0 Xt \<noteq> 0"
      by blast
    let ?n = "shape1 X" and ?ns = "shape0 Xs" and ?nt = "shape0 Xt"
    let ?body = "jda_round eig clf jda X Ys (Some yt) (shape0 X) ?n ?ns ?nt
                 (length (remdups Ys)) (centering ?n)"
    let ?st0 = "\<lparr>e = marginal_vector ?ns ?nt, Y_tar_pseudo = None, acc = None, list_acc = []\<rparr>"
    have same: "jda_round eig clf (jda\<lparr>T := 1\<rparr>) X Ys (Some yt) (shape0 X) ?n ?ns ?nt
                 (length (remdups Ys)) (centering ?n) = ?body"
      by (rule ext) (rule jda_round_cong, simp_all)
    from st1 have b0: "?body ?st0 = Inr st1"
      by (simp add: jda_run_loop [OF X] same split: sum.splits)
    from jda_round_Inr [OF b0] obtain Yp a' where
      Yp: "Y_tar_pseudo st1 = Some Yp" "accuracy_score (Some yt) Yp = Inr a'"
      by auto
    from accuracy_score_Inr [OF Yp(2)] len(2) have lenYp: "length Yp = ?nt" by simp
    have n: "?n = ?ns + ?nt" using pooled_Inr [OF X(1)] by simp
    have "conditional_term ?n ?ns ?nt C Ys (Some Yp) (e st1) = Inl ZeroDivisionError"
      using p2 [of ?n ?ns ?nt Yp "e st1"] len(1) n lenYp by simp
    then have b1: "?body st1 = Inl ZeroDivisionError"
      using Yp(1) assms(2) by (simp add: jda_round_conditional_Inl)
    define k where "k = nat (T jda) - 2"
    have k: "nat (T jda) = Suc (Suc k)"
      using T2 unfolding k_def by linarith
    show ?thesis
      using b0 b1 by (simp add: jda_fit_predict_def jda_run_loop [OF X] k)
  qed
  have p5: "conditional_term n ns nt C Ys' (Some Yp') e_cur =
            conditional_term n ns nt C Ys (Some Yp) e_cur"
    if "length Yp' = length Yp"
      "\<forall>c\<in>{1..int C}. where_eq Ys' c = where_eq Ys c \<and> where_eq Yp' c = where_eq Yp c"
    for n ns nt Ys' Yp' Yp e_cur
    using that class_loop_cong [of "[1..int C]" Ys' Ys Yp' Yp n ns e_cur "scalar 0"]
    by (simp add: conditional_term_def)
  show ?thesis
  proof (intro conjI impI)
    show "\<exists>c\<in>{1..int C}. length (where_eq Ys c) = 0"
      by (rule p1)
  next
    assume "length Ys \<le> n \<and> ns + nt \<le> n \<and> length Yp = nt"
    then show "conditional_term n ns nt C Ys (Some Yp) e_cur = Inl ZeroDivisionError"
      by (elim conjE) (rule p2)
  next
    assume a: "length Ys \<le> n \<and> ns + nt \<le> n \<and> Y_tar_pseudo st = Some Yp \<and> length Yp = nt"
    then have "conditional_term n ns nt C Ys (Y_tar_pseudo st) (e st) = Inl ZeroDivisionError"
      using p2 [of n ns nt Yp "e st"] by simp
    then show "jda_round eig clf self X Ys Yt m n ns nt C H st = Inl ZeroDivisionError"
      by (rule jda_round_conditional_Inl)
  next
    assume "length Ys \<le> shape0 Xs + shape0 Xt \<and> length yt = shape0 Xt \<and> 2 \<le> T jda \<and>
      (\<exists>r. jda_fit_predict eig clf (jda\<lparr>T := 1\<rparr>) Xs Ys Xt (Some yt) = Inr r)"
    then show "jda_fit_predict eig clf jda Xs Ys Xt (Some yt) = Inl ZeroDivisionError"
      by (elim conjE exE) (rule p4)
  next
    assume "length Yp' = length Yp \<and>
      (\<forall>c\<in>{1..int C}. where_eq Ys' c = where_eq Ys c \<and> where_eq Yp' c = where_eq Yp c)"
    then show "conditional_term n ns nt C Ys' (Some Yp') e_cur =
      conditional_term n ns nt C Ys (Some Yp) e_cur"
      by (elim conjE) (rule p5)
  qed
qed

lemma label_gap_run_example:
  "jda_fit_predict (eig_returning [1, 2] (eye 2)) (clf_returning [1, 3])
      \<lparr>kernel_type = Some ''primal'', dim = 30, lamb = 1, gamma = 1, T = 1\<rparr>
      \<lparr>shape0 = 2, shape1 = 2, dat = [[1, 0], [0, 1]]\<rparr> [1, 3]
      \<lparr>shape0 = 2, shape1 = 2, dat = [[1, 0], [0, 1]]\<rparr> (Some [1, 3])
    = Inr (1, Some [1, 3], [1])"
  by (simp add: run_eval array_eval eval_nat_numeral)

theorem labels_must_be_1_to_C_witness:
  "(\<exists>c\<in>{1..int 2}. length (where_eq [1, 3] c) = 0) \<and>
   conditional_term 4 2 2 2 [1, 3] (Some [1, 3]) (marginal_vector 2 2) = Inl ZeroDivisionError \<and>
   jda_round (eig_returning [1, 2] (eye 2)) (clf_returning [1, 3])
      \<lparr>kernel_type = Some ''primal'', dim = 30, lamb = 1, gamma = 1\<rparr>
      (eye 4) [1, 3] (Some [1, 3]) 4 4 2 2 2 (centering 4)
      \<lparr>e = marginal_vector 2 2, Y_tar_pseudo = Some [1, 3], acc = Some 1, list_acc = [1]\<rparr>
     = Inl ZeroDivisionError \<and>
   jda_fit_predict (eig_returning [1, 2] (eye 2)) (clf_returning [1, 3])
      \<lparr>kernel_type = Some ''primal'', dim = 30, lamb = 1, gamma = 1, T = 2\<rparr>
      \<lparr>shape0 = 2, shape1 = 2, dat = [[1, 0], [0, 1]]\<rparr> [1, 3]
      \<lparr>shape0 = 2, shape1 = 2, dat = [[1, 0], [0, 1]]\<rparr> (Some [1, 3])
     = Inl ZeroDivisionError \<and>
   conditional_term 4 2 2 2 [1, 5] (Some [1, 1]) (marginal_vector 2 2) =
   conditional_term 4 2 2 2 [1, 3] (Some [1, 1]) (marginal_vector 2 2)"
proof -
  have "(3::int) \<in> set [1, 3]" and "(3::int) \<notin> {1..int 2}"
    by simp_all
  then have "set [1, 3] \<noteq> {1..int 2}"
    by metis
  moreover have "(2::nat) = length (remdups [1, 3 :: int])"
    by simp
  ultimately have hyp: "set [1, 3] \<noteq> {1..int 2}" "(2::nat) = length (remdups [1, 3 :: int])"
    by blast+
  note inst = labels_must_be_1_to_C [OF hyp]
  have c1: "\<exists>c\<in>{1..int 2}. length (where_eq [1, 3] c) = 0"
    by (rule inst [THEN conjunct1])
  have c2: "conditional_term 4 2 2 2 [1, 3] (Some [1, 3]) (marginal_vector 2 2) = Inl ZeroDivisionError"
    using inst [where n = 4 and ns = 2 and nt = 2 and Yp = "[1, 3]"
        and e_cur = "marginal_vector 2 2", THEN conjunct2, THEN conjunct1]
    by simp
  have c3: "jda_round (eig_returning [1, 2] (eye 2)) (clf_returning [1, 3])
      \<lparr>kernel_type = Some ''primal'', dim = 30, lamb = 1, gamma = 1\<rparr>
      (eye 4) [1, 3] (Some [1, 3]) 4 4 2 2 2 (centering 4)
      \<lparr>e = marginal_vector 2 2, Y_tar_pseudo = Some [1, 3], acc = Some 1, list_acc = [1]\<rparr>
     = Inl ZeroDivisionError"
    using inst [where n = 4 and ns = 2 and nt = 2 and Yp = "[1, 3]"
        and st = "\<lparr>e = marginal_vector 2 2, Y_tar_pseudo = Some [1, 3], acc = Some 1,
          list_acc = [1]\<rparr>"
        and eig = "eig_returning [1, 2] (eye 2)" and clf = "clf_returning [1, 3]"
        and self = "\<lparr>kernel_type = Some ''primal'', dim = 30, lamb = 1, gamma = 1\<rparr>"
        and X = "eye 4" and Yt = "Some [1, 3]" and m = 4 and H = "centering 4",
        THEN conjunct2, THEN conjunct2, THEN conjunct1]
    by simp
  have c4: "jda_fit_predict (eig_returning [1, 2] (eye 2)) (clf_returning [1, 3])
      \<lparr>kernel_type = Some ''primal'', dim = 30, lamb = 1, gamma = 1, T = 2\<rparr>
      \<lparr>shape0 = 2, shape1 = 2, dat = [[1, 0], [0, 1]]\<rparr> [1, 3]
      \<lparr>shape0 = 2, shape1 = 2, dat = [[1, 0], [0, 1]]\<rparr> (Some [1, 3])
     = Inl ZeroDivisionError"
    using inst [where Xs = "\<lparr>shape0 = 2, shape1 = 2, dat = [[1, 0], [0, 1]]\<rparr>"
        and Xt = "\<lparr>shape0 = 2, shape1 = 2, dat = [[1, 0], [0, 1]]\<rparr>"
        and yt = "[1, 3]"
        and jda = "\<lparr>kernel_type = Some ''primal'', dim = 30, lamb = 1, gamma = 1, T = 2\<rparr>"
        and eig = "eig_returning [1, 2] (eye 2)" and clf = "clf_returning [1, 3]",
        THEN conjunct2, THEN conjunct2, THEN conjunct2, THEN conjunct1]
      label_gap_run_example
    by simp
  have c5: "conditional_term 4 2 2 2 [1, 5] (Some [1, 1]) (marginal_vector 2 2) =
      conditional_term 4 2 2 2 [1, 3] (Some [1, 1]) (marginal_vector 2 2)"
    using inst [where Yp' = "[1, 1]" and Yp = "[1, 1]" and Ys' = "[1, 5]"
        and n = 4 and ns = 2 and nt = 2 and e_cur = "marginal_vector 2 2",
        THEN conjunct2, THEN conjunct2, THEN conjunct2, THEN conjunct2]
    by (simp add: set_upto_2 where_eq_def)
  from c1 c2 c3 c4 c5 show ?thesis by simp
qed

section \<open>Fewer than T rounds\<close>

text \<open>
  C5, at a failing input. The loop of \<^verbatim>\<open>JDA.fit_predict\<close> is
  \<^verbatim>\<open>for t in range(self.T)\<close> with no \<^verbatim>\<open>break\<close> and no test on the pseudo-labels, but a
  round can raise. Two source samples with labels 1 and 2, one target sample with
  label 2, \<open>T = 3\<close>: the first round goes through (the classifier predicts 2, the
  accuracy is 1, the history is \<open>[1]\<close>). In the second round class 1 has no
  pseudo-labelled target sample, \<^verbatim>\<open>-1 / len(...)\<close> divides by the Python integer 0, and
  the call raises ZeroDivisionError: one round of the three has run, and neither labels
  nor an accuracy nor a history come back. The division is the one of C3. Lemma
  \<open>jda_fit_predict_history\<close> is what holds of every call that does return: \<open>T \<ge> 1\<close>, the
  history has \<open>T\<close> entries, one appended by each round, its last entry is the returned
  accuracy, and the labels are those of round \<open>T\<close>.
\<close>

theorem rounds_cut_short_example:
  "(\<exists>st. jda_run eig_units (clf_returning [2])
           \<lparr>kernel_type = Some ''primal'', dim = 30, lamb = 1, gamma = 1, T = 3\<rparr>
           \<lparr>shape0 = 2, shape1 = 2, dat = [[1, 0], [0, 1]]\<rparr> [1, 2]
           \<lparr>shape0 = 1, shape1 = 2, dat = [[0, 1]]\<rparr> (Some [2]) 1 = Inr st \<and>
         Y_tar_pseudo st = Some [2] \<and> acc st = Some 1 \<and> list_acc st = [1]) \<and>
   jda_run eig_units (clf_returning [2])
     \<lparr>kernel_type = Some ''primal'', dim = 30, lamb = 1, gamma = 1, T = 3\<rparr>
     \<lparr>shape0 = 2, shape1 = 2, dat = [[1, 0], [0, 1]]\<rparr> [1, 2]
     \<lparr>shape0 = 1, shape1 = 2, dat = [[0, 1]]\<rparr> (Some [2]) 2 = Inl ZeroDivisionError \<and>
   jda_fit_predict eig_units (clf_returning [2])
     \<lparr>kernel_type = Some ''primal'', dim = 30, lamb = 1, gamma = 1, T = 3\<rparr>
     \<lparr>shape0 = 2, shape1 = 2, dat = [[1, 0], [0, 1]]\<rparr> [1, 2]
     \<lparr>shape0 = 1, shape1 = 2, dat = [[0, 1]]\<rparr> (Some [2])
    = Inl ZeroDivisionError"
proof -
  let ?jda = "\<lparr>kernel_type = Some ''primal'', dim = 30, lamb = 1, gamma = 1, T = 3\<rparr>"
  let ?Xs = "\<lparr>shape0 = 2, shape1 = 2, dat = [[1, 0], [0, 1]]\<rparr>"
  let ?Xt = "\<lparr>shape0 = 1, shape1 = 2, dat = [[0, 1]]\<rparr>"
  let ?run = "jda_run eig_units (clf_returning [2]) ?jda ?Xs [1, 2] ?Xt (Some [2])"
  have "\<exists>st. ?run (Suc 0) = Inr st"
    by (rule jda_run_total [OF _ _ _ _ _ _ _ eig_units_ok])
      (simp_all add: set_upto_2 clf_returning_def)
  then obtain st where st: "?run (Suc 0) = Inr st"
    by blast
  from jda_run_Inr [OF st] obtain X where
    X: "pooled ?Xs ?Xt = Inr X" "shape0 ?Xs \<noteq> 0" "shape0 ?Xt \<noteq> 0"
    by blast
  from st [unfolded jda_run_loop [OF X]] have r1:
    "jda_round eig_units (clf_returning [2]) ?jda X [1, 2] (Some [2]) (shape0 X) (shape1 X)
        (shape0 ?Xs) (shape0 ?Xt) (length (remdups [1, 2 :: int])) (centering (shape1 X))
        \<lparr>e = marginal_vector (shape0 ?Xs) (shape0 ?Xt), Y_tar_pseudo = None, acc = None,
         list_acc = []\<rparr> = Inr st"
    by (auto split: sum.splits)
  from jda_round_Inr [OF r1]
  have first: "Y_tar_pseudo st = Some [2]" "acc st = Some 1" "list_acc st = [1]"
    by (auto simp: clf_returning_eq accuracy_score_def)
  have two: "?run (Suc (Suc 0) + j) = Inl ZeroDivisionError" for j
    by (rule jda_run_degenerate [OF st first(1), where c = 1]) simp_all
  from two [of 0] have r2: "?run 2 = Inl ZeroDivisionError"
    by (simp add: eval_nat_numeral)
  from two [of 1] have "jda_fit_predict eig_units (clf_returning [2]) ?jda ?Xs [1, 2] ?Xt (Some [2])
      = Inl ZeroDivisionError"
    by (simp add: jda_fit_predict_def eval_nat_numeral)
  with st first r2 show ?thesis by auto
qed

section \<open>A class without pseudo-labels\<close>

text \<open>
  C3, at a failing input. Two source samples with labels 1 and 2, one target sample,
  \<open>T = 2\<close>: whatever single label the classifier predicts in the first round (here 1),
  the other class has no pseudo-labelled target sample in the second round.
  \<^verbatim>\<open>-1 / len(Y_tar_pseudo[np.where(Y_tar_pseudo == c)])\<close> divides the Python integer
  \<open>-1\<close> by the Python integer 0 and raises ZeroDivisionError before
  \<^verbatim>\<open>e[np.isinf(e)] = 0\<close> is reached: the first round goes through, the call raises.
  Lemmas \<open>conditional_term_zero\<close> and \<open>jda_run_degenerate\<close> are the general statements.
\<close>

theorem degenerate_class_example:
  "(\<exists>st. jda_run eig_units (clf_returning [1])
           \<lparr>kernel_type = Some ''primal'', dim = 30, lamb = 1, gamma = 1, T = 2\<rparr>
           \<lparr>shape0 = 2, shape1 = 2, dat = [[1, 0], [0, 1]]\<rparr> [1, 2]
           \<lparr>shape0 = 1, shape1 = 2, dat = [[1, 0]]\<rparr> (Some [1]) 1 = Inr st \<and>
         Y_tar_pseudo st = Some [1]) \<and>
   jda_fit_predict eig_units (clf_returning [1])
     \<lparr>kernel_type = Some ''primal'', dim = 30, lamb = 1, gamma = 1, T = 2\<rparr>
     \<lparr>shape0 = 2, shape1 = 2, dat = [[1, 0], [0, 1]]\<rparr> [1, 2]
     \<lparr>shape0 = 1, shape1 = 2, dat = [[1, 0]]\<rparr> (Some [1])
    = Inl ZeroDivisionError"
proof -
  let ?jda = "\<lparr>kernel_type = Some ''primal'', dim = 30, lamb = 1, gamma = 1, T = 2\<rparr>"
  let ?Xs = "\<lparr>shape0 = 2, shape1 = 2, dat = [[1, 0], [0, 1]]\<rparr>"
  let ?Xt = "\<lparr>shape0 = 1, shape1 = 2, dat = [[1, 0]]\<rparr>"
  have "\<exists>st. jda_run eig_units (clf_returning [1]) ?jda ?Xs [1, 2] ?Xt (Some [1]) (Suc 0) = Inr st"
    by (rule jda_run_total [OF _ _ _ _ _ _ _ eig_units_ok])
      (simp_all add: set_upto_2 clf_returning_def)
  then obtain st where
    st: "jda_run eig_units (clf_returning [1]) ?jda ?Xs [1, 2] ?Xt (Some [1]) (Suc 0) = Inr st"
    by blast
  from jda_run_last_round [OF st] have yp: "Y_tar_pseudo st = Some [1]"
    by (auto simp: clf_returning_eq)
  have "jda_run eig_units (clf_returning [1]) ?jda ?Xs [1, 2] ?Xt (Some [1]) (Suc (Suc 0) + 0)
      = Inl ZeroDivisionError"
    by (rule jda_run_degenerate [OF st yp, where c = 2]) simp_all
  then have "jda_fit_predict eig_units (clf_returning [1]) ?jda ?Xs [1, 2] ?Xt (Some [1])
      = Inl ZeroDivisionError"
    by (simp add: jda_fit_predict_def eval_nat_numeral)
  with st yp show ?thesis by auto
qed

section \<open>The marginal term after the second round\<close>

text \<open>
  C2, at a failing input. The loop over the classes assigns \<^verbatim>\<open>e = np.zeros((n, 1))\<close>,
  the variable that \<^verbatim>\<open>M0 = e * e.T * C\<close> reads at the start of the next iteration. With
  two source samples (labels 1 and 2), two target samples and a classifier that
  predicts 1 and 2, \<open>e\<close> after two rounds is the vector of class 2, \<open>(0, 1, 0, -1)\<close>,
  and the third round builds \<open>M0\<close> from it, not from the marginal vector
  \<open>(1/2, 1/2, -1/2, -1/2)\<close>. Lemma \<open>e_after_second_round\<close> is the general statement:
  after every round but the first, \<open>e\<close> is the vector of class \<open>C\<close>.
\<close>

theorem marginal_term_overwritten_example:
  "\<exists>st. jda_run eig_units (clf_returning [1, 2])
           \<lparr>kernel_type = Some ''primal'', dim = 30, lamb = 1, gamma = 1, T = 3\<rparr>
           \<lparr>shape0 = 2, shape1 = 2, dat = [[1, 0], [0, 1]]\<rparr> [1, 2]
           \<lparr>shape0 = 2, shape1 = 2, dat = [[1, 0], [0, 1]]\<rparr> (Some [1, 2]) 2 = Inr st \<and>
         e st = \<lparr>shape0 = 4, shape1 = 1, dat = [[0], [1], [0], [- 1]]\<rparr> \<and>
         jda_M0 2 (e st) =
           \<lparr>shape0 = 4, shape1 = 4,
            dat = [[0, 0, 0, 0], [0, 2, 0, - 2], [0, 0, 0, 0], [0, - 2, 0, 2]]\<rparr> \<and>
         jda_M0 2 (marginal_vector 2 2) =
           \<lparr>shape0 = 4, shape1 = 4,
            dat = [[1 / 2, 1 / 2, - (1 / 2), - (1 / 2)], [1 / 2, 1 / 2, - (1 / 2), - (1 / 2)],
                   [- (1 / 2), - (1 / 2), 1 / 2, 1 / 2], [- (1 / 2), - (1 / 2), 1 / 2, 1 / 2]]\<rparr>"
proof -
  let ?jda = "\<lparr>kernel_type = Some ''primal'', dim = 30, lamb = 1, gamma = 1, T = 3\<rparr>"
  let ?X = "\<lparr>shape0 = 2, shape1 = 2, dat = [[1, 0], [0, 1]]\<rparr>"
  have "\<exists>st. jda_run eig_units (clf_returning [1, 2]) ?jda ?X [1, 2] ?X (Some [1, 2])
      (Suc (Suc 0)) = Inr st"
    by (rule jda_run_total [OF _ _ _ _ _ _ _ eig_units_ok])
      (simp_all add: set_upto_2 clf_returning_def)
  then obtain st where
    st: "jda_run eig_units (clf_returning [1, 2]) ?jda ?X [1, 2] ?X (Some [1, 2]) (Suc (Suc 0))
      = Inr st"
    by blast
  from e_after_second_round [OF st] obtain stk yp where
    stk: "jda_run eig_units (clf_returning [1, 2]) ?jda ?X [1, 2] ?X (Some [1, 2]) (Suc 0) = Inr stk"
      "Y_tar_pseudo stk = Some yp"
      "e st = class_vector_of (shape0 ?X + shape0 ?X) (shape0 ?X) [1, 2] yp
                (int (length (remdups [1, 2 :: int])))"
    by auto
  from jda_run_last_round [OF stk(1)] stk(2) have "yp = [1, 2]"
    by (auto simp: clf_returning_eq)
  with stk(3) have e2: "e st = \<lparr>shape0 = 4, shape1 = 1, dat = [[0], [1], [0], [- 1]]\<rparr>"
    by (simp add: class_vector_of_def where_eq_def mk_def eval_nat_numeral)
  have m2: "jda_M0 2 \<lparr>shape0 = 4, shape1 = 1, dat = [[0], [1], [0], [- 1]]\<rparr> =
      \<lparr>shape0 = 4, shape1 = 4,
       dat = [[0, 0, 0, 0], [0, 2, 0, - 2], [0, 0, 0, 0], [0, - 2, 0, 2]]\<rparr>"
    by (simp add: jda_M0_def array_eval eval_nat_numeral)
  have m0: "jda_M0 2 (marginal_vector 2 2) =
      \<lparr>shape0 = 4, shape1 = 4,
       dat = [[1 / 2, 1 / 2, - (1 / 2), - (1 / 2)], [1 / 2, 1 / 2, - (1 / 2), - (1 / 2)],
              [- (1 / 2), - (1 / 2), 1 / 2, 1 / 2], [- (1 / 2), - (1 / 2), 1 / 2, 1 / 2]]\<rparr>"
    by (simp add: jda_M0_def marginal_vector_def array_eval eval_nat_numeral)
  from st e2 m2 m0 show ?thesis
    by (simp add: eval_nat_numeral)
qed

section \<open>The caller's arrays\<close>

subsection \<open>Allocation and in-place statements\<close>

lemma unchanged_below_refl [simp]: "unchanged_below s s"
  by (simp add: unchanged_below_def)

lemma unchanged_below_trans:
  "unchanged_below s s1 \<Longrightarrow> unchanged_below s1 s2 \<Longrightarrow> unchanged_below s s2"
  by (auto simp: unchanged_below_def)

lemma unchanged_below_fresh: "unchanged_below s s' \<Longrightarrow> a < fresh s \<Longrightarrow> a < fresh s'"
  by (auto simp: unchanged_below_def)

lemma unchanged_below_reads:
  assumes "unchanged_below s s'" and "a < fresh s"
  shows "floats_at s' a = floats_at s a" and "ints_at s' a = ints_at s a"
  using assms by (simp_all add: unchanged_below_def floats_at_def ints_at_def)

lemma alloc_spec:
  assumes "alloc c s = (a, s')"
  shows "a = fresh s" and "fresh s' = Suc (fresh s)" and "heap s' = (heap s)(fresh s := c)"
    and "unchanged_below s s'" and "a < fresh s'"
  using assms by (auto simp: alloc_def unchanged_below_def)

lemma alloc_floats:
  assumes "alloc (Floats A) s = (a, s')"
  shows "floats_at s' a = A"
  using assms by (auto simp: alloc_def floats_at_def)

lemma write_floats_spec:
  "fresh (write_floats a A s) = fresh s"
  "floats_at (write_floats a A s) a = A"
  "b \<noteq> a \<Longrightarrow> heap (write_floats a A s) b = heap s b"
  by (simp_all add: write_floats_def floats_at_def)

lemma unchanged_below_write:
  assumes "unchanged_below s0 s" and "fresh s0 \<le> a"
  shows "unchanged_below s0 (write_floats a A s)"
  using assms by (auto simp: unchanged_below_def write_floats_def)

lemma h_pooled_spec:
  assumes "h_pooled inplace Xs Xt s = (r, s')"
  shows "unchanged_below s s' \<and>
         map_sum id (floats_at s') r = pooled (floats_at s Xs) (floats_at s Xt) \<and>
         (\<forall>X. r = Inr X \<longrightarrow> X < fresh s')"
proof (cases "hstack (transposed (floats_at s Xs)) (transposed (floats_at s Xt))")
  case (Inl err)
  with assms show ?thesis by (auto simp: h_pooled_def pooled_def)
next
  case (Inr X0)
  obtain X s1 where a1: "alloc (Floats X0) s = (X, s1)" by (cases "alloc (Floats X0) s")
  note f1 = alloc_spec [OF a1] alloc_floats [OF a1]
  let ?Xn = "bc (/) X0 (norm_axis0 X0)"
  show ?thesis
  proof (cases inplace)
    case True
    with assms Inr a1 f1 have r: "r = Inr X" "s' = write_floats X ?Xn s1"
      by (auto simp: h_pooled_def Let_def)
    have "unchanged_below s s'"
      unfolding r by (rule unchanged_below_write [OF f1(4)]) (simp add: f1(1))
    with r Inr f1 show ?thesis
      by (simp add: pooled_def write_floats_spec)
  next
    case False
    obtain X' s2 where a2: "alloc (Floats ?Xn) s1 = (X', s2)" by (cases "alloc (Floats ?Xn) s1")
    note f2 = alloc_spec [OF a2] alloc_floats [OF a2]
    from False assms Inr a1 a2 f1 have r: "r = Inr X'" "s' = s2"
      by (auto simp: h_pooled_def Let_def)
    have "unchanged_below s s'"
      unfolding r by (rule unchanged_below_trans [OF f1(4) f2(4)])
    with r Inr f2 show ?thesis
      by (simp add: pooled_def)
  qed
qed

lemma h_kernel_spec:
  assumes "h_kernel ker X g s = (r, s')" and "X < fresh s"
  shows "unchanged_below s s' \<and>
         map_sum id (map_option (floats_at s')) r = kernel ker (floats_at s X) None g \<and>
         (\<forall>K. r = Inr (Some K) \<longrightarrow> K < fresh s')"
proof -
  consider (ident) "ker = None \<or> ker = Some [] \<or> ker = Some ''primal''"
    | (lin) "ker = Some ''linear''" | (rbf) "ker = Some ''rbf''"
    | (other) "ker \<noteq> None" "ker \<noteq> Some []" "ker \<noteq> Some ''primal''" "ker \<noteq> Some ''linear''"
        "ker \<noteq> Some ''rbf''"
    by blast
  then show ?thesis
  proof cases
    case ident
    with assms show ?thesis by (auto simp: h_kernel_def kernel_def)
  next
    case lin
    let ?K = "linear_kernel (transposed (floats_at s X)) None"
    obtain K s1 where a: "alloc (Floats ?K) s = (K, s1)" by (cases "alloc (Floats ?K) s")
    from assms(1) lin a have "r = Inr (Some K)" "s' = s1"
      by (auto simp: h_kernel_def)
    with alloc_spec [OF a] alloc_floats [OF a] lin show ?thesis
      by (simp add: kernel_def)
  next
    case rbf
    let ?K = "rbf_kernel (transposed (floats_at s X)) None g"
    obtain K s1 where a: "alloc (Floats ?K) s = (K, s1)" by (cases "alloc (Floats ?K) s")
    from assms(1) rbf a have "r = Inr (Some K)" "s' = s1"
      by (auto simp: h_kernel_def)
    with alloc_spec [OF a] alloc_floats [OF a] rbf show ?thesis
      by (simp add: kernel_def)
  next
    case other
    with assms show ?thesis by (auto simp: h_kernel_def kernel_def)
  qed
qed


lemma h_project_tail:
  assumes a: "alloc (Floats Z0) s1 = (Z, s2)"
  shows "unchanged_below s1 (write_floats Z (bc (/) (floats_at s2 Z) (norm_axis0 (floats_at s2 Z))) s2) \<and>
         floats_at (write_floats Z (bc (/) (floats_at s2 Z) (norm_axis0 (floats_at s2 Z))) s2) Z
           = bc (/) Z0 (norm_axis0 Z0)"
proof -
  note f = alloc_spec [OF a] alloc_floats [OF a]
  have "unchanged_below s1 (write_floats Z (bc (/) (floats_at s2 Z) (norm_axis0 (floats_at s2 Z))) s2)"
    by (rule unchanged_below_write [OF f(4)]) (simp add: f(1))
  then show ?thesis by (simp add: write_floats_spec alloc_floats [OF a])
qed

lemma h_project_spec:
  assumes "h_project eig self X M H m n ns s = (r, s')" and "X < fresh s"
  shows "unchanged_below s s' \<and> r = jda_project eig self (floats_at s X) M H m n ns"
proof -
  obtain rk s1 where k: "h_kernel (kernel_type self) X (gamma self) s = (rk, s1)"
    by (cases "h_kernel (kernel_type self) X (gamma self) s")
  from h_kernel_spec [OF k assms(2)] have ks: "unchanged_below s s1"
    "map_sum id (map_option (floats_at s1)) rk = kernel (kernel_type self) (floats_at s X) None (gamma self)"
    by simp_all
  show ?thesis
  proof (cases rk)
    case (Inl err)
    with assms(1) k ks show ?thesis
      by (auto simp: h_project_def jda_project_def dest: sym)
  next
    case (Inr Ko)
    show ?thesis
    proof (cases Ko)
      case None
      with Inr assms(1) k ks show ?thesis
        by (auto simp: h_project_def jda_project_def dest: sym)
    next
      case (Some K)
      define Kv where "Kv = floats_at s1 K"
      have pk: "kernel (kernel_type self) (floats_at s X) None (gamma self) = Inr (Some Kv)"
        using ks(2) Inr Some by (simp add: Kv_def)
      define n_eye where "n_eye = (if kernel_type self = Some ''primal'' then m else n)"
      define P where "P = multi_dot Kv M (transposed Kv)"
      define L where "L = bc (*) (scalar (lamb self)) (eye n_eye)"
      define a where "a = bc (+) P L"
      define b where "b = multi_dot Kv H (transposed Kv)"
      have hp: "h_project eig self X M H m n ns s =
        (if \<not> bc_ok P L then (Inl ValueError, s1)
         else (case eig a b of
                 Inl err \<Rightarrow> (Inl err, s1)
               | Inr (w, V) \<Rightarrow>
                   (case take_cols V (slice_to (argsort w) (dim self)) of
                      Inl err \<Rightarrow> (Inl err, s1)
                    | Inr A \<Rightarrow>
                        if shape0 A \<noteq> shape0 Kv then (Inl ValueError, s1)
                        else
                          (case alloc (Floats (dot (transposed A) Kv)) s1 of
                             (Z, s2) \<Rightarrow>
                               let s3 = write_floats Z
                                          (bc (/) (floats_at s2 Z)
                                             (norm_axis0 (floats_at s2 Z))) s2
                               in (Inr (transposed (cols_to (floats_at s3 Z) ns),
                                        transposed (cols_from (floats_at s3 Z) ns)),
                                   s3)))))"
        unfolding h_project_def k Inr Some Kv_def n_eye_def P_def L_def a_def b_def Let_def
        by simp
      have pp: "jda_project eig self (floats_at s X) M H m n ns =
        (if \<not> bc_ok P L then Inl ValueError
         else (case eig a b of
                 Inl err \<Rightarrow> Inl err
               | Inr (w, V) \<Rightarrow>
                   (case take_cols V (slice_to (argsort w) (dim self)) of
                      Inl err \<Rightarrow> Inl err
                    | Inr A \<Rightarrow>
                        if shape0 A \<noteq> shape0 Kv then Inl ValueError
                        else
                          let Z0 = dot (transposed A) Kv;
                              Z = bc (/) Z0 (norm_axis0 Z0)
                          in Inr (transposed (cols_to Z ns), transposed (cols_from Z ns)))))"
        unfolding jda_project_def pk n_eye_def P_def L_def a_def b_def Let_def
        by simp
      show ?thesis
      proof (cases "bc_ok P L")
        case False
        with assms(1) hp pp ks(1) show ?thesis by auto
      next
        case ok: True
        show ?thesis
        proof (cases "eig a b")
          case (Inl err)
          with ok assms(1) hp pp ks(1) show ?thesis by auto
        next
          case (Inr wV)
          obtain w V where wV: "wV = (w, V)" by (cases wV)
          show ?thesis
          proof (cases "take_cols V (slice_to (argsort w) (dim self))")
            case (Inl err)
            with ok Inr wV assms(1) hp pp ks(1) show ?thesis by auto
          next
            case A: (Inr A)
            show ?thesis
            proof (cases "shape0 A \<noteq> shape0 Kv")
              case True
              with ok Inr wV A assms(1) hp pp ks(1) show ?thesis by auto
            next
              case False
              obtain Z s2 where al: "alloc (Floats (dot (transposed A) Kv)) s1 = (Z, s2)"
                by (cases "alloc (Floats (dot (transposed A) Kv)) s1")
              note t = h_project_tail [OF al]
              from ok Inr wV A False al assms(1) hp have
                r: "s' = write_floats Z (bc (/) (floats_at s2 Z) (norm_axis0 (floats_at s2 Z))) s2"
                   "r = Inr (transposed (cols_to (floats_at s' Z) ns),
                             transposed (cols_from (floats_at s' Z) ns))"
                by (auto simp: Let_def)
              from t r(1) have u: "unchanged_below s1 s'"
                and z: "floats_at s' Z = bc (/) (dot (transposed A) Kv) (norm_axis0 (dot (transposed A) Kv))"
                by simp_all
              from unchanged_below_trans [OF ks(1) u] r(2) z ok Inr wV A False pp
              show ?thesis by (simp add: Let_def)
            qed
          qed
        qed
      qed
    qed
  qed
qed


lemma h_class_vector_spec:
  assumes "h_class_vector n ns Ys Yp c s = (r, s')" and "Ys < fresh s"
  shows "unchanged_below s s' \<and>
         map_sum id (floats_at s') r = class_vector n ns (ints_at s Ys) Yp c \<and>
         (\<forall>e_c. r = Inr e_c \<longrightarrow> e_c < fresh s')"
proof -
  obtain e_c s1 where a: "alloc (Floats (zeros n 1)) s = (e_c, s1)"
    by (cases "alloc (Floats (zeros n 1)) s")
  note f = alloc_spec [OF a] alloc_floats [OF a]
  have ys: "ints_at s1 Ys = ints_at s Ys"
    by (rule unchanged_below_reads [OF f(4) assms(2)])
  define tt where "tt = where_eq (ints_at s Ys) c"
  define ind where "ind = where_eq Yp c"
  define inds where "inds = map (\<lambda>item. item + ns) ind"
  have w: "unchanged_below s (write_floats e_c A s1)" for A
    by (rule unchanged_below_write [OF f(4)]) (simp add: f(1))
  have w2: "unchanged_below s (write_floats e_c A (write_floats e_c B s1))" for A B
    by (rule unchanged_below_write [OF w]) (simp add: f(1))
  have hv: "h_class_vector n ns Ys Yp c s =
     (if length tt = 0 then (Inl ZeroDivisionError, s1)
      else (case assign_rows (zeros n 1) tt (1 / real (length tt)) of
              Inl err \<Rightarrow> (Inl err, s1)
            | Inr e1 \<Rightarrow>
                if length ind = 0 then (Inl ZeroDivisionError, write_floats e_c e1 s1)
                else (case assign_rows e1 inds (- 1 / real (length ind)) of
                        Inl err \<Rightarrow> (Inl err, write_floats e_c e1 s1)
                      | Inr e2 \<Rightarrow> (Inr e_c, write_floats e_c e2 (write_floats e_c e1 s1)))))"
    unfolding h_class_vector_def a tt_def ind_def inds_def Let_def
    by (simp add: ys f(6) write_floats_spec split: sum.splits)
  have pv: "class_vector n ns (ints_at s Ys) Yp c =
     (if length tt = 0 then Inl ZeroDivisionError
      else (case assign_rows (zeros n 1) tt (1 / real (length tt)) of
              Inl err \<Rightarrow> Inl err
            | Inr e1 \<Rightarrow>
                if length ind = 0 then Inl ZeroDivisionError
                else assign_rows e1 inds (- 1 / real (length ind))))"
    unfolding class_vector_def tt_def ind_def inds_def Let_def by simp
  have fr: "e_c < fresh (write_floats e_c A (write_floats e_c B s1))" for A B
    using f(5) by (simp add: write_floats_spec)
  from assms(1) f(4,5) w w2 fr show ?thesis
    unfolding hv pv
    by (auto simp: write_floats_spec split: if_splits sum.splits)
qed

lemma h_class_loop_spec:
  assumes "h_class_loop n ns Ys Yp cs (e_cur, N) s = (r, s')"
    and "Ys < fresh s" and "e_cur < fresh s"
  shows "unchanged_below s s' \<and>
         map_sum id (\<lambda>(e_c, N'). (floats_at s' e_c, N')) r =
           class_loop n ns (ints_at s Ys) Yp cs (floats_at s e_cur, N) \<and>
         (\<forall>e_c N'. r = Inr (e_c, N') \<longrightarrow> e_c < fresh s')"
  using assms
proof (induction cs arbitrary: e_cur N s)
  case Nil
  then show ?case by auto
next
  case (Cons c cs)
  obtain rv s1 where v: "h_class_vector n ns Ys Yp c s = (rv, s1)"
    by (cases "h_class_vector n ns Ys Yp c s")
  from h_class_vector_spec [OF v Cons.prems(2)] have vs: "unchanged_below s s1"
    "map_sum id (floats_at s1) rv = class_vector n ns (ints_at s Ys) Yp c"
    "\<forall>e_c. rv = Inr e_c \<longrightarrow> e_c < fresh s1"
    by simp_all
  show ?case
  proof (cases rv)
    case (Inl err)
    with Cons.prems(1) v vs show ?thesis
      by (auto dest: sym)
  next
    case (Inr e_c)
    let ?N1 = "bc (+) N (dot (floats_at s1 e_c) (transposed (floats_at s1 e_c)))"
    from Cons.prems(1) v Inr have rest: "h_class_loop n ns Ys Yp cs (e_c, ?N1) s1 = (r, s')"
      by simp
    have ys: "Ys < fresh s1" "ints_at s1 Ys = ints_at s Ys"
      using unchanged_below_fresh [OF vs(1) Cons.prems(2)]
        unchanged_below_reads [OF vs(1) Cons.prems(2)] by simp_all
    have ec: "e_c < fresh s1" using vs(3) Inr by simp
    note ih = Cons.IH [OF rest ys(1) ec, unfolded ys(2)]
    have pv: "class_vector n ns (ints_at s Ys) Yp c = Inr (floats_at s1 e_c)"
      using vs(2) Inr by simp
    from ih have "unchanged_below s s'"
      using unchanged_below_trans [OF vs(1)] by blast
    with ih pv show ?thesis
      by simp
  qed
qed

lemma h_conditional_term_spec:
  assumes "h_conditional_term n ns nt C Ys Yp_opt e_cur s = (r, s')"
    and "Ys < fresh s" and "e_cur < fresh s"
  shows "unchanged_below s s' \<and>
         map_sum id (\<lambda>(e_c, N'). (floats_at s' e_c, N')) r =
           conditional_term n ns nt C (ints_at s Ys) Yp_opt (floats_at s e_cur) \<and>
         (\<forall>e_c N'. r = Inr (e_c, N') \<longrightarrow> e_c < fresh s')"
proof (cases "\<exists>Yp. Yp_opt = Some Yp \<and> length Yp = nt")
  case True
  then obtain Yp where Yp: "Yp_opt = Some Yp" "length Yp = nt" by blast
  with assms(1) have "h_class_loop n ns Ys Yp [1..int C] (e_cur, scalar 0) s = (r, s')"
    by (simp add: h_conditional_term_def)
  from h_class_loop_spec [OF this assms(2,3)] Yp show ?thesis
    by (simp add: conditional_term_def)
next
  case False
  with assms show ?thesis
    by (auto simp: h_conditional_term_def conditional_term_def split: option.splits)
qed


lemma map_option_ints_at:
  assumes "unchanged_below s s'" and "\<forall>y. Yt = Some y \<longrightarrow> y < fresh s"
  shows "map_option (ints_at s') Yt = map_option (ints_at s) Yt"
  using assms by (cases Yt) (simp_all add: unchanged_below_reads)

lemma h_jda_round_spec:
  assumes "h_jda_round eig clf self X Ys Yt m n ns nt C H hst s = (r, s')"
    and "X < fresh s" and "Ys < fresh s" and "h_e hst < fresh s"
    and "\<forall>y. Yt = Some y \<longrightarrow> y < fresh s"
  shows "unchanged_below s s' \<and>
         map_sum id (abs_state s') r =
           jda_round eig clf self (floats_at s X) (ints_at s Ys) (map_option (ints_at s) Yt)
             m n ns nt C H (abs_state s hst) \<and>
         (\<forall>hst'. r = Inr hst' \<longrightarrow> h_e hst' < fresh s')"
proof -
  let ?Ysv = "ints_at s Ys" and ?Ytv = "map_option (ints_at s) Yt" and ?Xv = "floats_at s X"
  obtain rc s1 where c: "h_conditional_term n ns nt C Ys (h_Y_tar_pseudo hst) (h_e hst) s = (rc, s1)"
    by (cases "h_conditional_term n ns nt C Ys (h_Y_tar_pseudo hst) (h_e hst) s")
  from h_conditional_term_spec [OF c assms(3,4)] have cs: "unchanged_below s s1"
    "map_sum id (\<lambda>(e_c, N'). (floats_at s1 e_c, N')) rc =
       conditional_term n ns nt C ?Ysv (h_Y_tar_pseudo hst) (floats_at s (h_e hst))"
    "\<forall>e_c N'. rc = Inr (e_c, N') \<longrightarrow> e_c < fresh s1"
    by simp_all
  show ?thesis
  proof (cases rc)
    case (Inl err)
    with assms(1) c have "r = Inl err" "s' = s1"
      by (auto simp: h_jda_round_def Let_def)
    with cs Inl show ?thesis
      by (auto simp: jda_round_def abs_state_def dest: sym)
  next
    case (Inr eN)
    obtain e_new N where eN: "eN = (e_new, N)" by (cases eN)
    have pc: "conditional_term n ns nt C ?Ysv (h_Y_tar_pseudo hst) (floats_at s (h_e hst))
        = Inr (floats_at s1 e_new, N)"
      using cs(2) Inr eN by simp
    have en: "e_new < fresh s1" using cs(3) Inr eN by simp
    define M where "M = jda_M C (floats_at s (h_e hst)) N"
    have M: "frob_normalise (bc (+) (jda_M0 C (floats_at s (h_e hst))) N) = M"
      by (simp add: M_def jda_M_def jda_M1_def)
    obtain rp s2 where p: "h_project eig self X M H m n ns s1 = (rp, s2)"
      by (cases "h_project eig self X M H m n ns s1")
    have x1: "X < fresh s1" "floats_at s1 X = ?Xv"
      using unchanged_below_fresh [OF cs(1) assms(2)] unchanged_below_reads [OF cs(1) assms(2)]
      by simp_all
    from h_project_spec [OF p x1(1)] have ps: "unchanged_below s1 s2"
      "rp = jda_project eig self ?Xv M H m n ns"
      by (simp_all add: x1(2))
    have u2: "unchanged_below s s2" by (rule unchanged_below_trans [OF cs(1) ps(1)])
    have rd: "ints_at s2 Ys = ?Ysv" "map_option (ints_at s2) Yt = ?Ytv"
      "floats_at s2 e_new = floats_at s1 e_new" "e_new < fresh s2"
      using unchanged_below_reads [OF u2 assms(3)] map_option_ints_at [OF u2 assms(5)]
        unchanged_below_reads [OF ps(1) en] unchanged_below_fresh [OF ps(1) en]
      by simp_all
    have hr: "h_jda_round eig clf self X Ys Yt m n ns nt C H hst s =
      (case rp of
         Inl err \<Rightarrow> (Inl err, s2)
       | Inr (Xs_new, Xt_new) \<Rightarrow>
           (case clf Xs_new ?Ysv Xt_new of
              Inl err \<Rightarrow> (Inl err, s2)
            | Inr Yp \<Rightarrow>
                (case accuracy_score ?Ytv Yp of
                   Inl err \<Rightarrow> (Inl err, s2)
                 | Inr a \<Rightarrow>
                     (Inr \<lparr>h_e = e_new, h_Y_tar_pseudo = Some Yp, h_acc = Some a,
                           h_list_acc = h_list_acc hst @ [a]\<rparr>, s2))))"
      unfolding h_jda_round_def c Inr eN Let_def
      by (simp add: M p rd split: sum.splits prod.splits)
    have pr: "jda_round eig clf self ?Xv ?Ysv ?Ytv m n ns nt C H (abs_state s hst) =
      (case rp of
         Inl err \<Rightarrow> Inl err
       | Inr (Xs_new, Xt_new) \<Rightarrow>
           (case clf Xs_new ?Ysv Xt_new of
              Inl err \<Rightarrow> Inl err
            | Inr Yp \<Rightarrow>
                (case accuracy_score ?Ytv Yp of
                   Inl err \<Rightarrow> Inl err
                 | Inr a \<Rightarrow>
                     Inr \<lparr>e = floats_at s1 e_new, Y_tar_pseudo = Some Yp, acc = Some a,
                          list_acc = h_list_acc hst @ [a]\<rparr>)))"
      unfolding jda_round_def Let_def
      by (simp add: abs_state_def pc M_def [symmetric] ps(2) [symmetric]
          split: sum.splits prod.splits)
    from assms(1) u2 rd(3,4) show ?thesis
      unfolding hr pr
      by (auto simp: abs_state_def split: sum.splits prod.splits)
  qed
qed


lemma h_jda_loop_spec:
  assumes "h_jda_loop (h_jda_round eig clf self X Ys Yt m n ns nt C H) k hst s = (r, s')"
    and "X < fresh s" and "Ys < fresh s" and "h_e hst < fresh s"
    and "\<forall>y. Yt = Some y \<longrightarrow> y < fresh s"
  shows "unchanged_below s s' \<and>
         map_sum id (abs_state s') r =
           jda_loop (jda_round eig clf self (floats_at s X) (ints_at s Ys)
                       (map_option (ints_at s) Yt) m n ns nt C H) k (abs_state s hst)"
  using assms
proof (induction k arbitrary: hst s)
  case 0
  then show ?case by auto
next
  case (Suc k)
  obtain rb s1 where b: "h_jda_round eig clf self X Ys Yt m n ns nt C H hst s = (rb, s1)"
    by (cases "h_jda_round eig clf self X Ys Yt m n ns nt C H hst s")
  note bs = h_jda_round_spec [OF b Suc.prems(2-5)]
  show ?case
  proof (cases rb)
    case (Inl err)
    with Suc.prems(1) b have "r = Inl err" "s' = s1" by auto
    with bs Inl show ?thesis by (auto dest: sym)
  next
    case (Inr hst1)
    have u1: "unchanged_below s s1" using bs by simp
    have st1: "jda_round eig clf self (floats_at s X) (ints_at s Ys)
                 (map_option (ints_at s) Yt) m n ns nt C H (abs_state s hst)
               = Inr (abs_state s1 hst1)"
      using bs Inr by simp
    have e1: "h_e hst1 < fresh s1" using bs Inr by simp
    have rest: "h_jda_loop (h_jda_round eig clf self X Ys Yt m n ns nt C H) k hst1 s1 = (r, s')"
      using Suc.prems(1) b Inr by simp
    have yt1: "\<forall>y. Yt = Some y \<longrightarrow> y < fresh s1"
      using Suc.prems(5) unchanged_below_fresh [OF u1] by blast
    note ih = Suc.IH [OF rest unchanged_below_fresh [OF u1 Suc.prems(2)]
        unchanged_below_fresh [OF u1 Suc.prems(3)] e1 yt1]
    have rd: "floats_at s1 X = floats_at s X" "ints_at s1 Ys = ints_at s Ys"
      "map_option (ints_at s1) Yt = map_option (ints_at s) Yt"
      using unchanged_below_reads [OF u1 Suc.prems(2)] unchanged_below_reads [OF u1 Suc.prems(3)]
        map_option_ints_at [OF u1 Suc.prems(5)]
      by simp_all
    from ih show ?thesis
      unfolding rd by (simp add: st1 unchanged_below_trans [OF u1])
  qed
qed

lemma h_jda_fit_predict_spec:
  assumes "h_jda_fit_predict inplace eig clf self Xs Ys Xt Yt s = (r, s')"
    and "Xs < fresh s" and "Ys < fresh s" and "Xt < fresh s"
    and "\<forall>y. Yt = Some y \<longrightarrow> y < fresh s"
  shows "unchanged_below s s' \<and>
         r = jda_fit_predict eig clf self (floats_at s Xs) (ints_at s Ys) (floats_at s Xt)
               (map_option (ints_at s) Yt)"
proof -
  let ?Xs = "floats_at s Xs" and ?Xt = "floats_at s Xt" and ?Ys = "ints_at s Ys"
    and ?Yt = "map_option (ints_at s) Yt"
  obtain rp s1 where p: "h_pooled inplace Xs Xt s = (rp, s1)"
    by (cases "h_pooled inplace Xs Xt s")
  note ps = h_pooled_spec [OF p]
  show ?thesis
  proof (cases rp)
    case (Inl err)
    with assms(1) p have "r = Inl err" "s' = s1" by (auto simp: h_jda_fit_predict_def)
    moreover have "pooled ?Xs ?Xt = Inl err" using ps Inl by (auto dest: sym)
    ultimately show ?thesis using ps
      by (simp add: jda_fit_predict_def jda_run_def)
  next
    case (Inr X)
    have u1: "unchanged_below s s1" using ps by simp
    have pX: "pooled ?Xs ?Xt = Inr (floats_at s1 X)" using ps Inr by (auto dest: sym)
    have X1: "X < fresh s1" using ps Inr by simp
    have rd1: "floats_at s1 Xs = ?Xs" "floats_at s1 Xt = ?Xt"
      using unchanged_below_reads [OF u1 assms(2)] unchanged_below_reads [OF u1 assms(4)]
      by simp_all
    show ?thesis
    proof (cases "shape0 ?Xs = 0 \<or> shape0 ?Xt = 0")
      case True
      with assms(1) p Inr rd1 have "r = Inl ZeroDivisionError" "s' = s1"
        by (auto simp: h_jda_fit_predict_def Let_def)
      with True u1 pX show ?thesis
        by (auto simp: jda_fit_predict_def jda_run_def Let_def)
    next
      case False
      define ns nt mm nn where "ns = shape0 ?Xs" and "nt = shape0 ?Xt"
        and "mm = shape0 (floats_at s1 X)" and "nn = shape1 (floats_at s1 X)"
      obtain e0 s2 where a: "alloc (Floats (marginal_vector ns nt)) s1 = (e0, s2)"
        by (cases "alloc (Floats (marginal_vector ns nt)) s1")
      note as = alloc_spec [OF a] alloc_floats [OF a]
      have u2: "unchanged_below s s2" by (rule unchanged_below_trans [OF u1 as(4)])
      define Cn where "Cn = length (remdups ?Ys)"
      define hst0 where
        "hst0 = \<lparr>h_e = e0, h_Y_tar_pseudo = None, h_acc = None, h_list_acc = []\<rparr>"
      have rd2: "floats_at s2 X = floats_at s1 X" "ints_at s2 Ys = ?Ys"
        "map_option (ints_at s2) Yt = ?Yt"
        using unchanged_below_reads [OF as(4) X1] unchanged_below_reads [OF u2 assms(3)]
          map_option_ints_at [OF u2 assms(5)]
        by simp_all
      obtain rl s3 where l:
        "h_jda_loop (h_jda_round eig clf self X Ys Yt mm nn ns nt Cn (centering nn))
           (nat (T self)) hst0 s2 = (rl, s3)"
        by (cases "h_jda_loop (h_jda_round eig clf self X Ys Yt mm nn ns nt Cn (centering nn))
           (nat (T self)) hst0 s2")
      have yt2: "\<forall>y. Yt = Some y \<longrightarrow> y < fresh s2"
        using assms(5) unchanged_below_fresh [OF u2] by blast
      have e2: "h_e hst0 < fresh s2" using as(5) by (simp add: hst0_def)
      note ls = h_jda_loop_spec [OF l unchanged_below_fresh [OF as(4) X1]
          unchanged_below_fresh [OF u2 assms(3)] e2 yt2, unfolded rd2]
      have st0: "abs_state s2 hst0 =
          \<lparr>e = marginal_vector ns nt, Y_tar_pseudo = None, acc = None, list_acc = []\<rparr>"
        by (simp add: abs_state_def hst0_def as(6))
      have run: "jda_run eig clf self ?Xs ?Ys ?Xt ?Yt (nat (T self)) = map_sum id (abs_state s3) rl"
        using False ls
        by (simp add: jda_run_def pX Let_def st0 ns_def nt_def mm_def nn_def Cn_def)
      have hr: "h_jda_fit_predict inplace eig clf self Xs Ys Xt Yt s =
        (case rl of
           Inl err \<Rightarrow> (Inl err, s3)
         | Inr hst \<Rightarrow>
             (case h_acc hst of
                None \<Rightarrow> (Inl UnboundLocalError, s3)
              | Some a \<Rightarrow> (Inr (a, h_Y_tar_pseudo hst, h_list_acc hst), s3)))"
        using False
        unfolding h_jda_fit_predict_def p Inr Let_def
        by (simp add: rd1 ns_def [symmetric] nt_def [symmetric] mm_def [symmetric]
            nn_def [symmetric] a rd2 Cn_def [symmetric] hst0_def [symmetric] l
            split: sum.splits)
      have u3: "unchanged_below s s3" using ls unchanged_below_trans [OF u2] by simp
      from assms(1) u3 show ?thesis
        unfolding hr jda_fit_predict_def run
        by (auto simp: abs_state_def split: sum.splits option.splits)
    qed
  qed
qed


lemma h_tca_fit_spec:
  assumes "h_tca_fit inplace eig self Xs Xt s = (r, s')"
    and "Xs < fresh s" and "Xt < fresh s"
  shows "unchanged_below s s' \<and> r = tca_fit eig self (floats_at s Xs) (floats_at s Xt)"
proof -
  let ?Xs = "floats_at s Xs" and ?Xt = "floats_at s Xt"
  obtain rp s1 where p: "h_pooled inplace Xs Xt s = (rp, s1)"
    by (cases "h_pooled inplace Xs Xt s")
  note ps = h_pooled_spec [OF p]
  show ?thesis
  proof (cases rp)
    case (Inl err)
    with assms(1) p have "r = Inl err" "s' = s1" by (auto simp: h_tca_fit_def)
    moreover have "pooled ?Xs ?Xt = Inl err" using ps Inl by (auto dest: sym)
    ultimately show ?thesis using ps by (simp add: tca_fit_def)
  next
    case (Inr X)
    have u1: "unchanged_below s s1" using ps by simp
    have pX: "pooled ?Xs ?Xt = Inr (floats_at s1 X)" using ps Inr by (auto dest: sym)
    have X1: "X < fresh s1" using ps Inr by simp
    have rd1: "floats_at s1 Xs = ?Xs" "floats_at s1 Xt = ?Xt"
      using unchanged_below_reads [OF u1 assms(2)] unchanged_below_reads [OF u1 assms(3)]
      by simp_all
    show ?thesis
    proof (cases "shape0 ?Xs = 0 \<or> shape0 ?Xt = 0")
      case True
      with assms(1) p Inr rd1 have "r = Inl ZeroDivisionError" "s' = s1"
        by (auto simp: h_tca_fit_def Let_def)
      with True u1 pX show ?thesis by (auto simp: tca_fit_def Let_def)
    next
      case False
      define ns nt mm nn where "ns = shape0 ?Xs" and "nt = shape0 ?Xt"
        and "mm = shape0 (floats_at s1 X)" and "nn = shape1 (floats_at s1 X)"
      have hp: "h_project eig self X (tca_M ns nt) (centering nn) mm nn ns s1 = (r, s')"
        using assms(1) False
        unfolding h_tca_fit_def p Inr Let_def
        by (simp add: rd1 ns_def nt_def mm_def nn_def)
      note hs = h_project_spec [OF hp X1]
      have "tca_fit eig self ?Xs ?Xt =
          tca_project eig self (floats_at s1 X) (tca_M ns nt) (centering nn) mm nn ns"
        using False by (simp add: tca_fit_def pX Let_def ns_def nt_def mm_def nn_def)
      with hs u1 show ?thesis
        by (simp add: jda_project_eq [OF refl refl refl refl] unchanged_below_trans)
    qed
  qed
qed

lemma h_tca_fit_predict_spec:
  assumes "h_tca_fit_predict inplace eig clf self Xs Ys Xt Yt s = (r, s')"
    and "Xs < fresh s" and "Ys < fresh s" and "Xt < fresh s"
    and "\<forall>y. Yt = Some y \<longrightarrow> y < fresh s"
  shows "unchanged_below s s' \<and>
         r = tca_fit_predict eig clf self (floats_at s Xs) (ints_at s Ys) (floats_at s Xt)
               (map_option (ints_at s) Yt)"
proof -
  obtain rf s1 where f: "h_tca_fit inplace eig self Xs Xt s = (rf, s1)"
    by (cases "h_tca_fit inplace eig self Xs Xt s")
  from h_tca_fit_spec [OF f assms(2,4)] have u1: "unchanged_below s s1"
    and rf: "rf = tca_fit eig self (floats_at s Xs) (floats_at s Xt)"
    by simp_all
  have rd: "ints_at s1 Ys = ints_at s Ys"
    "map_option (ints_at s1) Yt = map_option (ints_at s) Yt"
    using unchanged_below_reads [OF u1 assms(3)] map_option_ints_at [OF u1 assms(5)]
    by simp_all
  from assms(1) u1 rd show ?thesis
    unfolding h_tca_fit_predict_def tca_fit_predict_def f rf [symmetric]
    by (auto split: sum.splits prod.splits)
qed

subsection \<open>The caller's arrays after the call\<close>

text \<open>
  C9. \<^verbatim>\<open>fit_predict\<close> of JDA and of TCA, run on a store in which the caller's arrays
  \<^verbatim>\<open>Xs\<close>, \<^verbatim>\<open>Ys\<close>, \<^verbatim>\<open>Xt\<close> and \<^verbatim>\<open>Yt\<close> exist, leaves each of them as it was, and every
  other array that existed before the call too, whether the call returns or raises,
  for the notebooks that normalise with \<^verbatim>\<open>X /= ...\<close> and for those that call
  \<^verbatim>\<open>np.true_divide\<close>: the pooled matrix is a new array, \<^verbatim>\<open>K\<close> is a new array or that
  pooled matrix, and the in-place statements write to arrays the call itself created.
  What the call returns is what the definitions that pass arrays by value return for
  the contents of the caller's arrays.
\<close>

theorem caller_arrays_unchanged:
  assumes "Xs < fresh s" and "Ys < fresh s" and "Xt < fresh s"
    and "\<forall>y. Yt = Some y \<longrightarrow> y < fresh s"
    and "h_jda_fit_predict inplace_j eig clf jda Xs Ys Xt Yt s = (r_j, s_j)"
    and "h_tca_fit_predict inplace_t eig clf tca Xs Ys Xt Yt s = (r_t, s_t)"
  shows "heap s_j Xs = heap s Xs \<and> heap s_j Ys = heap s Ys \<and> heap s_j Xt = heap s Xt \<and>
         (\<forall>y. Yt = Some y \<longrightarrow> heap s_j y = heap s y) \<and>
         unchanged_below s s_j \<and>
         r_j = jda_fit_predict eig clf jda (floats_at s Xs) (ints_at s Ys) (floats_at s Xt)
                 (map_option (ints_at s) Yt) \<and>
         heap s_t Xs = heap s Xs \<and> heap s_t Ys = heap s Ys \<and> heap s_t Xt = heap s Xt \<and>
         (\<forall>y. Yt = Some y \<longrightarrow> heap s_t y = heap s y) \<and>
         unchanged_below s s_t \<and>
         r_t = tca_fit_predict eig clf tca (floats_at s Xs) (ints_at s Ys) (floats_at s Xt)
                 (map_option (ints_at s) Yt)"
proof -
  note j = h_jda_fit_predict_spec [OF assms(5) assms(1-4)]
  note t = h_tca_fit_predict_spec [OF assms(6) assms(1-4)]
  have keep: "heap s2 a = heap s a" if "unchanged_below s s2" and "a < fresh s" for s2 a
    using that by (simp add: unchanged_below_def)
  have kj: "heap s_j a = heap s a" if "a < fresh s" for a
    using keep [OF conjunct1 [OF j] that] .
  have kt: "heap s_t a = heap s a" if "a < fresh s" for a
    using keep [OF conjunct1 [OF t] that] .
  have yj: "\<forall>y. Yt = Some y \<longrightarrow> heap s_j y = heap s y"
    using assms(4) kj by blast
  have yt: "\<forall>y. Yt = Some y \<longrightarrow> heap s_t y = heap s y"
    using assms(4) kt by blast
  from j t kj [OF assms(1)] kj [OF assms(2)] kj [OF assms(3)] yj
    kt [OF assms(1)] kt [OF assms(2)] kt [OF assms(3)] yt
  show ?thesis by blast
qed

theorem caller_arrays_unchanged_witness:
  "heap (snd (h_jda_fit_predict True (eig_returning [1, 2] (eye 2)) (clf_returning [1])
       \<lparr>kernel_type = Some ''primal'', dim = 30, lamb = 1, gamma = 1, T = 1\<rparr> 0 1 2 (Some 3)
       (store_of [Floats \<lparr>shape0 = 1, shape1 = 2, dat = [[1, 0]]\<rparr>, Ints [1],
                  Floats \<lparr>shape0 = 1, shape1 = 2, dat = [[0, 1]]\<rparr>, Ints [1]]))) 0
     = Floats \<lparr>shape0 = 1, shape1 = 2, dat = [[1, 0]]\<rparr> \<and>
   heap (snd (h_jda_fit_predict True (eig_returning [1, 2] (eye 2)) (clf_returning [1])
       \<lparr>kernel_type = Some ''primal'', dim = 30, lamb = 1, gamma = 1, T = 1\<rparr> 0 1 2 (Some 3)
       (store_of [Floats \<lparr>shape0 = 1, shape1 = 2, dat = [[1, 0]]\<rparr>, Ints [1],
                  Floats \<lparr>shape0 = 1, shape1 = 2, dat = [[0, 1]]\<rparr>, Ints [1]]))) 2
     = Floats \<lparr>shape0 = 1, shape1 = 2, dat = [[0, 1]]\<rparr> \<and>
   fst (h_jda_fit_predict True (eig_returning [1, 2] (eye 2)) (clf_returning [1])
       \<lparr>kernel_type = Some ''primal'', dim = 30, lamb = 1, gamma = 1, T = 1\<rparr> 0 1 2 (Some 3)
       (store_of [Floats \<lparr>shape0 = 1, shape1 = 2, dat = [[1, 0]]\<rparr>, Ints [1],
                  Floats \<lparr>shape0 = 1, shape1 = 2, dat = [[0, 1]]\<rparr>, Ints [1]]))
     = Inr (1, Some [1], [1]) \<and>
   heap (snd (h_tca_fit_predict True (eig_returning [1, 2] (eye 2)) (clf_returning [1])
       \<lparr>kernel_type = Some ''primal'', dim = 30, lamb = 1, gamma = 1\<rparr> 0 1 2 (Some 3)
       (store_of [Floats \<lparr>shape0 = 1, shape1 = 2, dat = [[1, 0]]\<rparr>, Ints [1],
                  Floats \<lparr>shape0 = 1, shape1 = 2, dat = [[0, 1]]\<rparr>, Ints [1]]))) 0
     = Floats \<lparr>shape0 = 1, shape1 = 2, dat = [[1, 0]]\<rparr> \<and>
   fst (h_tca_fit_predict True (eig_returning [1, 2] (eye 2)) (clf_returning [1])
       \<lparr>kernel_type = Some ''primal'', dim = 30, lamb = 1, gamma = 1\<rparr> 0 1 2 (Some 3)
       (store_of [Floats \<lparr>shape0 = 1, shape1 = 2, dat = [[1, 0]]\<rparr>, Ints [1],
                  Floats \<lparr>shape0 = 1, shape1 = 2, dat = [[0, 1]]\<rparr>, Ints [1]]))
     = Inr (1, [1])"
proof -
  let ?s = "store_of [Floats \<lparr>shape0 = 1, shape1 = 2, dat = [[1, 0]]\<rparr>, Ints [1],
                      Floats \<lparr>shape0 = 1, shape1 = 2, dat = [[0, 1]]\<rparr>, Ints [1]]"
  have a: "0 < fresh ?s" "1 < fresh ?s" "2 < fresh ?s" "\<forall>y. Some 3 = Some y \<longrightarrow> y < fresh ?s"
    by (simp_all add: store_of_def)
  have v: "heap ?s 0 = Floats \<lparr>shape0 = 1, shape1 = 2, dat = [[1, 0]]\<rparr>"
    "heap ?s 2 = Floats \<lparr>shape0 = 1, shape1 = 2, dat = [[0, 1]]\<rparr>"
    "floats_at ?s 0 = \<lparr>shape0 = 1, shape1 = 2, dat = [[1, 0]]\<rparr>"
    "floats_at ?s 2 = \<lparr>shape0 = 1, shape1 = 2, dat = [[0, 1]]\<rparr>"
    "ints_at ?s 1 = [1]" "map_option (ints_at ?s) (Some 3) = Some [1]"
    by (simp_all add: store_of_def floats_at_def ints_at_def)
  note c = caller_arrays_unchanged [OF a surjective_pairing surjective_pairing, unfolded v,
      of True "eig_returning [1, 2] (eye 2)" "clf_returning [1]"
        "\<lparr>kernel_type = Some ''primal'', dim = 30, lamb = 1, gamma = 1, T = 1\<rparr>"
        True "\<lparr>kernel_type = Some ''primal'', dim = 30, lamb = 1, gamma = 1\<rparr>"]
  from c show ?thesis
    unfolding fit_predict_returns_example [THEN conjunct1] fit_predict_returns_example [THEN conjunct2]
    by blast
qed

end
